theory Spec2Isabelle
  imports Main "HOL-Library.Word"
begin

section \<open>Errors, effects and JavaScript values\<close>

text \<open>
  Every \<open>throw\<close> and every rejected promise of the source is a value of type \<open>error\<close>.
  \<open>Error msg\<close> is \<open>new Error(msg)\<close>, \<open>SocketError e\<close> is the error object that an
  \<open>'error'\<close> event of a request delivers (connection refused, socket absent, reset),
  \<open>RangeError\<close> and \<open>TypeError\<close> are the runtime's own errors, and
  \<open>NodeOperationError msg i\<close> is the host's error type with its message and item index.
\<close>

datatype error =
    Error string
  | SocketError string
  | RangeError
  | TypeError
  | NodeOperationError string nat

text \<open>
  An asynchronous computation is a function of the program state: the external world
  \<open>'w\<close> (engine, filesystem), the log \<open>'e list\<close> of the external calls made so far, each
  with the outcome it had, and the mutable locals \<open>'l\<close> of the enclosing function. It
  returns its outcome (a thrown error or a value) and the new state.
\<close>

type_synonym ('w, 'e, 'l, 'a) io = "'w \<times> 'e list \<times> 'l \<Rightarrow> (error + 'a) \<times> 'w \<times> 'e list \<times> 'l"

definition io_return :: "'a \<Rightarrow> ('w, 'e, 'l, 'a) io" where
  "io_return x s = (Inr x, s)"

definition io_throw :: "error \<Rightarrow> ('w, 'e, 'l, 'a) io" where
  "io_throw e s = (Inl e, s)"

definition io_bind :: "('w, 'e, 'l, 'a) io \<Rightarrow> ('a \<Rightarrow> ('w, 'e, 'l, 'b) io) \<Rightarrow> ('w, 'e, 'l, 'b) io" where
  "io_bind m f s = (case m s of (Inl e, s') \<Rightarrow> (Inl e, s') | (Inr a, s') \<Rightarrow> f a s')"

text \<open>Lifting a synchronous step that may throw.\<close>

definition io_lift :: "error + 'a \<Rightarrow> ('w, 'e, 'l, 'a) io" where
  "io_lift r s = (r, s)"

text \<open>An external operation: the world answers, and the call is logged with its answer.\<close>

definition io_ask :: "('r \<Rightarrow> 'e) \<Rightarrow> ('w \<Rightarrow> 'r \<times> 'w) \<Rightarrow> ('w, 'e, 'l, 'r) io" where
  "io_ask ev act s =
     (case s of (w, tr, l) \<Rightarrow> (case act w of (r, w') \<Rightarrow> (Inr r, w', tr @ [ev r], l)))"

text \<open>\<open>await act(...)\<close>: a rejection is thrown.\<close>

definition io_call :: "((error + 'a) \<Rightarrow> 'e) \<Rightarrow> ('w \<Rightarrow> (error + 'a) \<times> 'w) \<Rightarrow> ('w, 'e, 'l, 'a) io" where
  "io_call ev act = io_bind (io_ask ev act) io_lift"

text \<open>\<open>try { m } catch (error) { h error }\<close>.\<close>

definition io_catch :: "('w, 'e, 'l, 'a) io \<Rightarrow> (error \<Rightarrow> ('w, 'e, 'l, 'a) io) \<Rightarrow> ('w, 'e, 'l, 'a) io" where
  "io_catch m h s = (case m s of (Inl e, s') \<Rightarrow> h e s' | (Inr a, s') \<Rightarrow> (Inr a, s'))"

text \<open>\<open>try { m } finally { c }\<close>: the outcome of \<open>m\<close> stands unless \<open>c\<close> itself throws.\<close>

definition io_finally :: "('w, 'e, 'l, 'a) io \<Rightarrow> ('w, 'e, 'l, 'b) io \<Rightarrow> ('w, 'e, 'l, 'a) io" where
  "io_finally m c s =
     (case m s of (r, s') \<Rightarrow> (case c s' of (Inl e, s'') \<Rightarrow> (Inl e, s'') | (Inr _, s'') \<Rightarrow> (r, s'')))"

text \<open>A promise as \<open>Promise.allSettled\<close> sees it: its outcome becomes a value.\<close>

definition io_settle :: "('w, 'e, 'l, 'a) io \<Rightarrow> ('w, 'e, 'l, error + 'a) io" where
  "io_settle m s = (case m s of (r, s') \<Rightarrow> (Inr r, s'))"

fun allSettled :: "('w, 'e, 'l, 'a) io list \<Rightarrow> ('w, 'e, 'l, (error + 'a) list) io" where
  "allSettled [] = io_return []"
| "allSettled (m # ms) =
     io_bind (io_settle m) (\<lambda>r. io_bind (allSettled ms) (\<lambda>rs. io_return (r # rs)))"

definition io_locals :: "('w, 'e, 'l, 'l) io" where
  "io_locals s = (case s of (w, tr, l) \<Rightarrow> (Inr l, w, tr, l))"

definition io_assign :: "('l \<Rightarrow> 'l) \<Rightarrow> ('w, 'e, 'l, unit) io" where
  "io_assign f s = (case s of (w, tr, l) \<Rightarrow> (Inr (), w, tr, f l))"

text \<open>What a finished computation left: its outcome, the log and the locals.\<close>

definition io_result :: "(error + 'a) \<times> 'w \<times> 'e list \<times> 'l \<Rightarrow> error + 'a" where
  "io_result r = fst r"

definition io_log :: "(error + 'a) \<times> 'w \<times> 'e list \<times> 'l \<Rightarrow> 'e list" where
  "io_log r = fst (snd (snd r))"

definition io_final_locals :: "(error + 'a) \<times> 'w \<times> 'e list \<times> 'l \<Rightarrow> 'l" where
  "io_final_locals r = snd (snd (snd r))"

text \<open>
  The values \<open>JSON.parse\<close> returns and the program passes on. Numbers are the integers
  the engine sends (status codes); property order in objects is the list's.
\<close>

datatype jsval =
    Undefined
  | Null
  | Bool bool
  | Num int
  | Str string
  | Arr "jsval list"
  | Obj "(string \<times> jsval) list"

text \<open>
  The property read \<open>v.key\<close> for the keys the program reads (\<open>Id\<close>, \<open>StatusCode\<close>):
  a \<open>TypeError\<close> on \<open>undefined\<close> and \<open>null\<close>, the member of an object when it has one,
  \<open>undefined\<close> otherwise.
\<close>

fun getProp :: "jsval \<Rightarrow> string \<Rightarrow> error + jsval" where
  "getProp Undefined key = Inl TypeError"
| "getProp Null key = Inl TypeError"
| "getProp (Obj members) key =
     Inr (case map_of members key of Some v \<Rightarrow> v | None \<Rightarrow> Undefined)"
| "getProp v key = Inr Undefined"

text \<open>The decimal numeral of a status code, as a template literal prints a number.\<close>

fun decimal :: "nat \<Rightarrow> string" where
  "decimal n =
     (if n < 10 then [char_of (48 + n)]
      else decimal (n div 10) @ [char_of (48 + n mod 10)])"

declare decimal.simps [simp del]


section \<open>The container run over the engine socket (\<open>runContainer\<close>)\<close>

type_synonym byte = "8 word"

subsection \<open>The log demultiplexer\<close>

text \<open>\<open>Buffer.readUInt32BE(off)\<close>: four bytes, most significant first; a \<open>RangeError\<close> when
  they are not all inside the buffer.\<close>

definition readUInt32BE :: "byte list \<Rightarrow> nat \<Rightarrow> error + nat" where
  "readUInt32BE buf off =
     (if off + 4 \<le> length buf
      then Inr (unat (buf ! off) * 2 ^ 24 + unat (buf ! (off + 1)) * 2 ^ 16
                + unat (buf ! (off + 2)) * 2 ^ 8 + unat (buf ! (off + 3)))
      else Inl RangeError)"

text \<open>\<open>Buffer.slice(start, fin)\<close> for \<open>0 \<le> start \<le> fin\<close>: both ends are clamped to the buffer.\<close>

definition slice_buf :: "byte list \<Rightarrow> nat \<Rightarrow> nat \<Rightarrow> byte list" where
  "slice_buf buf start fin = take (fin - start) (drop start buf)"

text \<open>The \<open>while (offset < logsBuffer.length)\<close> loop, with \<open>stdout\<close> and \<open>stderr\<close> as
  accumulators.\<close>

function parseLogs :: "byte list \<Rightarrow> nat \<Rightarrow> byte list \<Rightarrow> byte list \<Rightarrow> error + (byte list \<times> byte list)" where
  "parseLogs logsBuffer offset stdout stderr =
     (if offset < length logsBuffer then
        (let type = logsBuffer ! offset in
         case readUInt32BE logsBuffer (offset + 4) of
           Inl e \<Rightarrow> Inl e
         | Inr sz \<Rightarrow>
             (let content = slice_buf logsBuffer (offset + 8) (offset + 8 + sz) in
              parseLogs logsBuffer (offset + 8 + sz)
                (if type = 1 then stdout @ content else stdout)
                (if type = 1 then stderr else if type = 2 then stderr @ content else stderr)))
      else Inr (stdout, stderr))"
  by pat_completeness auto
termination
  by (relation "measure (\<lambda>(b, off, out, err). length b - off)") auto

declare parseLogs.simps [simp del]

definition demultiplex :: "byte list \<Rightarrow> error + (byte list \<times> byte list)" where
  "demultiplex logsBuffer = parseLogs logsBuffer 0 [] []"

subsection \<open>The engine's framing\<close>

text \<open>
  What the engine writes for a frame with tag \<open>t\<close> and payload \<open>p\<close>: the tag, three zero
  bytes, the length of \<open>p\<close> as an unsigned 32-bit number, most significant byte first,
  and \<open>p\<close>. \<open>payloadsOf t\<close> is what the frames with tag \<open>t\<close> carry, in order.
\<close>

definition writeUInt32BE :: "nat \<Rightarrow> byte list" where
  "writeUInt32BE n = [of_nat (n div 2 ^ 24), of_nat (n div 2 ^ 16), of_nat (n div 2 ^ 8), of_nat n]"

definition frameHeader :: "byte \<Rightarrow> nat \<Rightarrow> byte list" where
  "frameHeader t n = [t, 0, 0, 0] @ writeUInt32BE n"

definition encodeFrame :: "byte \<times> byte list \<Rightarrow> byte list" where
  "encodeFrame f = frameHeader (fst f) (length (snd f)) @ snd f"

definition encodeFrames :: "(byte \<times> byte list) list \<Rightarrow> byte list" where
  "encodeFrames frames = concat (map encodeFrame frames)"

definition payloadsOf :: "byte \<Rightarrow> (byte \<times> byte list) list \<Rightarrow> byte list" where
  "payloadsOf t frames = concat (map snd (filter (\<lambda>f. fst f = t) frames))"

subsection \<open>The engine and its requests\<close>

text \<open>
  The six requests of a run, by what they ask for: the pull
  (\<open>POST /images/create?fromImage=<image>\<close>), the create (\<open>POST /containers/create\<close> with
  the body's \<open>Image\<close>, \<open>Cmd\<close>, \<open>Env\<close> and \<open>Tty\<close>), and start, wait, logs and remove
  (\<open>DELETE /containers/<id>?v=1\<close>) of the container whose id the create response gave.
\<close>

datatype request =
    PullImage string
  | CreateContainer string "string list option" "string list" bool
  | StartContainer jsval
  | WaitContainer jsval
  | GetLogs jsval
  | RemoveContainer jsval

text \<open>What a request ends in: an \<open>'error'\<close> event of the request, or the \<open>'end'\<close> of a
  response with its status code and the concatenated chunks of its body.\<close>

datatype http_outcome = RequestError string | Response nat "byte list"

text \<open>
  The engine behind the socket answers each request from its current state. The
  runtime's \<open>JSON.parse\<close> (\<open>None\<close> when it throws) and \<open>Buffer.toString\<close> are parameters.
\<close>

record 'w engine =
  http_request :: "request \<Rightarrow> 'w \<Rightarrow> http_outcome \<times> 'w"
  JSON_parse :: "string \<Rightarrow> jsval option"
  toString :: "byte list \<Rightarrow> string"

type_synonym ('w, 'a) run = "('w, request \<times> http_outcome, unit, 'a) io"

definition send :: "'w engine \<Rightarrow> request \<Rightarrow> ('w, http_outcome) run" where
  "send E req = io_ask (Pair req) (http_request E req)"

text \<open>The \<open>'end'\<close> and \<open>'error'\<close> handlers of \<open>dockerRequest\<close>.\<close>

definition dockerResponse :: "'w engine \<Rightarrow> http_outcome \<Rightarrow> error + jsval" where
  "dockerResponse E out =
     (case out of
        RequestError e \<Rightarrow> Inl (SocketError e)
      | Response statusCode buffer \<Rightarrow>
          (let responseBody = toString E buffer in
           if statusCode \<noteq> 0 \<and> statusCode \<ge> 200 \<and> statusCode < 300 then
             (if responseBody \<noteq> [] then
                (case JSON_parse E responseBody of
                   Some v \<Rightarrow> Inr v
                 | None \<Rightarrow> Inr (Str responseBody))
              else Inr (Obj []))
           else Inl (Error (''Docker API Error: '' @ decimal statusCode @ '' - '' @ responseBody @ '' ''))))"

definition dockerRequest :: "'w engine \<Rightarrow> request \<Rightarrow> ('w, jsval) run" where
  "dockerRequest E req = io_bind (send E req) (\<lambda>out. io_lift (dockerResponse E out))"

text \<open>The pull's own request: the response is consumed whatever its status; only an
  \<open>'error'\<close> event rejects.\<close>

definition pullResponse :: "http_outcome \<Rightarrow> error + unit" where
  "pullResponse out = (case out of RequestError e \<Rightarrow> Inl (SocketError e) | Response statusCode buffer \<Rightarrow> Inr ())"

text \<open>The logs' own request: the body as it came, whatever the status.\<close>

definition logsResponse :: "http_outcome \<Rightarrow> error + byte list" where
  "logsResponse out = (case out of RequestError e \<Rightarrow> Inl (SocketError e) | Response statusCode buffer \<Rightarrow> Inr buffer)"

text \<open>\<open>args.split(' ')\<close>.\<close>

fun split_on :: "char \<Rightarrow> string \<Rightarrow> string list" where
  "split_on c [] = [[]]"
| "split_on c (x # xs) =
     (if x = c then [] # split_on c xs
      else (case split_on c xs of [] \<Rightarrow> [[x]] | w # ws \<Rightarrow> (x # w) # ws))"

definition fullCmd :: "string \<Rightarrow> string \<Rightarrow> string list" where
  "fullCmd command args =
     (let cmd = (if command \<noteq> [] then [command] else []);
          cmdArgs = (if args \<noteq> [] then filter (\<lambda>a. a \<noteq> []) (split_on CHR '' '' args) else [])
      in cmd @ cmdArgs)"

definition createBody :: "string \<Rightarrow> string \<Rightarrow> string \<Rightarrow> string list \<Rightarrow> request" where
  "createBody img command args envVars =
     CreateContainer img
       (if length (fullCmd command args) > 0 then Some (fullCmd command args) else None) envVars False"

definition runContainer ::
  "'w engine \<Rightarrow> string \<Rightarrow> string \<Rightarrow> string \<Rightarrow> string list \<Rightarrow> ('w, byte list \<times> byte list \<times> jsval) run" where
  "runContainer E img command args envVars =
     io_bind (io_bind (send E (PullImage img)) (\<lambda>out. io_lift (pullResponse out))) (\<lambda>_.
     io_bind (dockerRequest E (createBody img command args envVars)) (\<lambda>createRes.
     io_bind (io_lift (getProp createRes ''Id'')) (\<lambda>containerId.
     io_bind (dockerRequest E (StartContainer containerId)) (\<lambda>_.
     io_bind (dockerRequest E (WaitContainer containerId)) (\<lambda>waitRes.
     io_bind (io_lift (getProp waitRes ''StatusCode'')) (\<lambda>statusCode.
     io_bind (io_bind (send E (GetLogs containerId)) (\<lambda>out. io_lift (logsResponse out))) (\<lambda>logsBuffer.
     io_bind (io_lift (demultiplex logsBuffer)) (\<lambda>logs.
     io_bind (dockerRequest E (RemoveContainer containerId)) (\<lambda>_.
     io_return (fst logs, snd logs, statusCode))))))))))"

section \<open>The container run with binary data (\<open>execute\<close>, \<open>executeContainerWithBinary\<close>)\<close>

subsection \<open>Data\<close>

datatype pull_policy = Always | Missing

record ContainerExecutionConfig =
  imageRef :: string
  entrypoint :: "string option"
  command :: "string option"
  environmentVariables :: "string list"
  socketPath :: string
  autoRemove :: bool
  pullPolicy :: pull_policy
  volumes :: "string list option"
  memory :: "nat option"
  cpuQuota :: "nat option"

record ContainerExecutionResult =
  stdout :: string
  stderr :: string
  exitCode :: int
  success :: bool
  hasOutput :: bool

record MountPoint =
  hostPath :: string
  containerPath :: string

text \<open>What \<open>prepareBinaryInput\<close> resolves with.\<close>

record PreparedBinary =
  tempDir :: string
  mountPoints :: "MountPoint list"
  fileSizes :: "nat list"

text \<open>A binary file mapping is the pair of its \<open>binaryPropertyName\<close> and its
  \<open>containerPath\<close>; a harvested output is the pair of its file name and its payload.\<close>

type_synonym FileMapping = "string \<times> string"
type_synonym BinaryData = "(string \<times> string) list"

text \<open>
  \<open>RunContainerParams\<close>, and the node parameters of one item as \<open>getNodeParameter\<close> returns
  them (\<open>execute\<close> takes the environment from \<open>processEnvironmentVariables\<close>, not from
  \<open>envVars\<close>).
\<close>

record RunContainerParams =
  imageP :: string
  entrypointP :: string
  commandP :: string
  socketPathP :: string
  envVars :: "string list"
  binaryDataInput :: bool
  binaryDataOutput :: bool
  binaryFileMappings :: "FileMapping list"
  outputFilePattern :: string

text \<open>\<open>INodeExecutionData\<close> of a finished run: the \<open>json\<close> members, the \<open>container\<close>
  members, \<open>binary\<close> and \<open>pairedItem\<close>.\<close>

record ExecutionData =
  json_stdout :: string
  json_stderr :: string
  json_exitCode :: int
  json_success :: bool
  json_hasOutput :: bool
  container_image :: string
  container_command :: "string option"
  container_entrypoint :: "string option"
  environmentVariablesCount :: nat
  container_socketPath :: string
  binaryInput :: bool
  binaryOutput :: bool
  outputFilesCount :: "nat option"
  binary :: "BinaryData option"
  pairedItem :: nat

text \<open>An entry of \<open>returnData\<close>: a finished run, or the record of a failed item under
  continue-on-fail (\<open>error\<close> and \<open>stderr\<close> the message, \<open>success\<close> false, \<open>exitCode\<close> -1,
  \<open>stdout\<close> empty).\<close>

datatype NodeOutput = Executed ExecutionData | FailedItem string nat

subsection \<open>The helpers outside this module\<close>

text \<open>
  The helpers imported from \<open>GenericFunctions\<close>, \<open>ContainerHelpers\<close>, \<open>socketDetector\<close>,
  \<open>BinaryDataHelpers\<close> and \<open>fs/promises\<close> are parameters. Those that touch the engine or
  the filesystem answer from the state of the world, with a value or with an error (a
  rejected promise for the awaited ones); the validator (its \<open>valid\<close> and \<open>errors\<close>), the
  limit calculation (its \<open>memory\<close> and \<open>cpuQuota\<close>) and the error formatting are functions
  of their arguments. \<open>mkdtemp\<close> is given the last component of its prefix, the directory
  before it being the host's \<open>os.tmpdir()\<close>. \<open>continueOnFail\<close> is the node's setting.
\<close>

record 'w host =
  detectDockerSocket :: "string \<Rightarrow> 'w \<Rightarrow> (error + string) \<times> 'w"
  validateDockerImageName :: "string \<Rightarrow> bool \<times> string list"
  processEnvironmentVariables :: "nat \<Rightarrow> 'w \<Rightarrow> (error + string list \<times> nat) \<times> 'w"
  prepareBinaryInput :: "nat \<Rightarrow> FileMapping list \<Rightarrow> 'w \<Rightarrow> (error + PreparedBinary) \<times> 'w"
  mkdtemp :: "string \<Rightarrow> 'w \<Rightarrow> (error + string) \<times> 'w"
  createOutputDirectory :: "string \<Rightarrow> 'w \<Rightarrow> (error + unit) \<times> 'w"
  calculateResourceLimits :: "nat list \<Rightarrow> nat \<times> nat"
  executeContainer :: "ContainerExecutionConfig \<Rightarrow> 'w \<Rightarrow> (error + ContainerExecutionResult) \<times> 'w"
  collectBinaryOutput :: "string \<Rightarrow> string \<Rightarrow> 'w \<Rightarrow> (error + BinaryData) \<times> 'w"
  cleanupTempDirectory :: "string \<Rightarrow> 'w \<Rightarrow> (error + unit) \<times> 'w"
  isDockerConnectionError :: "error \<Rightarrow> bool"
  formatDockerError :: "error \<Rightarrow> string \<Rightarrow> string \<Rightarrow> string"
  continueOnFail :: bool

text \<open>The log: each call of a helper that touches the world, with what it returned.\<close>

datatype event =
    DetectDockerSocket string "error + string"
  | ProcessEnvironmentVariables nat "error + string list \<times> nat"
  | PrepareBinaryInput nat "FileMapping list" "error + PreparedBinary"
  | Mkdtemp string "error + string"
  | CreateOutputDirectory string "error + unit"
  | ExecuteContainer ContainerExecutionConfig "error + ContainerExecutionResult"
  | CollectBinaryOutput string string "error + BinaryData"
  | CleanupTempDirectory string "error + unit"

text \<open>The local of both functions is \<open>tempDirectories\<close>.\<close>

type_synonym ('w, 'a) exec = "('w, event, string list, 'a) io"

subsection \<open>The blocks the two functions share\<close>

text \<open>\<open>errors.join(', ')\<close>.\<close>

fun join :: "string \<Rightarrow> string list \<Rightarrow> string" where
  "join sep [] = []"
| "join sep [x] = x"
| "join sep (x # y # ys) = x @ sep @ join sep (y # ys)"

text \<open>\<open>x || undefined\<close> for a string.\<close>

definition orUndefined :: "string \<Rightarrow> string option" where
  "orUndefined x = (if x \<noteq> [] then Some x else None)"

definition validateImage :: "'w host \<Rightarrow> nat \<Rightarrow> string \<Rightarrow> ('w, unit) exec" where
  "validateImage H itemIndex img =
     (let imageValidation = validateDockerImageName H img in
      if \<not> fst imageValidation
      then io_throw (NodeOperationError (''Invalid Docker image: '' @ join '', '' (snd imageValidation)) itemIndex)
      else io_return ())"

definition baseConfig :: "string \<Rightarrow> string \<Rightarrow> string \<Rightarrow> string list \<Rightarrow> string \<Rightarrow> ContainerExecutionConfig" where
  "baseConfig img entrypoint' command' variables socketPath' =
     \<lparr> imageRef = img,
       entrypoint = orUndefined entrypoint',
       command = orUndefined command',
       environmentVariables = variables,
       socketPath = socketPath',
       autoRemove = True,
       pullPolicy = Missing,
       volumes = None,
       memory = None,
       cpuQuota = None \<rparr>"

text \<open>
  The block \<open>// Prepare binary input if enabled\<close>, the same text in both functions. It
  yields the configuration and \<open>tempDir\<close> (\<open>None\<close> for \<open>null\<close>).
\<close>

definition prepareBinary ::
  "'w host \<Rightarrow> nat \<Rightarrow> bool \<Rightarrow> bool \<Rightarrow> FileMapping list \<Rightarrow> ContainerExecutionConfig
   \<Rightarrow> ('w, ContainerExecutionConfig \<times> string option) exec" where
  "prepareBinary H itemIndex binaryDataInput' binaryDataOutput' mappings containerConfig =
     (if binaryDataInput' then
        (if length mappings > 0 then
           io_bind (io_call (PrepareBinaryInput itemIndex mappings) (prepareBinaryInput H itemIndex mappings))
             (\<lambda>preparedBinary.
           io_bind (io_assign (\<lambda>tempDirectories. tempDirectories @ [tempDir preparedBinary])) (\<lambda>_.
           io_bind
             (let volumes' = map (\<lambda>mp. hostPath mp @ '':'' @ containerPath mp @ '':ro'')
                               (mountPoints preparedBinary) in
              if binaryDataOutput' then
                io_bind (io_call (CreateOutputDirectory (tempDir preparedBinary))
                           (createOutputDirectory H (tempDir preparedBinary)))
                  (\<lambda>_. io_return (volumes' @ [tempDir preparedBinary @ ''/output:/output:rw'']))
              else io_return volumes')
             (\<lambda>volumes'.
           let resourceLimits = calculateResourceLimits H (fileSizes preparedBinary) in
           io_return
             (containerConfig \<lparr> volumes := Some volumes',
                                memory := Some (fst resourceLimits),
                                cpuQuota := Some (snd resourceLimits) \<rparr>,
              Some (tempDir preparedBinary)))))
         else io_return (containerConfig, None))
      else if binaryDataOutput' then
        io_bind (io_call (Mkdtemp ''n8n-docker-output-'') (mkdtemp H ''n8n-docker-output-'')) (\<lambda>tempDir'.
        io_bind (io_assign (\<lambda>tempDirectories. tempDirectories @ [tempDir'])) (\<lambda>_.
        io_bind (io_call (CreateOutputDirectory tempDir') (createOutputDirectory H tempDir')) (\<lambda>_.
        io_return (containerConfig \<lparr> volumes := Some [tempDir' @ ''/output:/output:rw''] \<rparr>, Some tempDir'))))
      else io_return (containerConfig, None))"

text \<open>The block \<open>// Prepare result\<close>.\<close>

definition prepareResult ::
  "RunContainerParams \<Rightarrow> ContainerExecutionConfig \<Rightarrow> nat \<Rightarrow> string \<Rightarrow> nat
   \<Rightarrow> ContainerExecutionResult \<Rightarrow> ExecutionData" where
  "prepareResult params containerConfig count socketPath' itemIndex result =
     \<lparr> json_stdout = stdout result,
       json_stderr = stderr result,
       json_exitCode = exitCode result,
       json_success = success result,
       json_hasOutput = hasOutput result,
       container_image = imageP params,
       container_command = command containerConfig,
       container_entrypoint = entrypoint containerConfig,
       environmentVariablesCount = count,
       container_socketPath = socketPath',
       binaryInput = binaryDataInput params,
       binaryOutput = binaryDataOutput params,
       outputFilesCount = None,
       binary = None,
       pairedItem = itemIndex \<rparr>"

text \<open>The block \<open>// Collect binary output if enabled\<close>; \<open>tempDir\<close> is truthy when it is
  neither \<open>null\<close> nor the empty string.\<close>

definition collectOutput ::
  "'w host \<Rightarrow> bool \<Rightarrow> string option \<Rightarrow> string \<Rightarrow> ExecutionData \<Rightarrow> ('w, ExecutionData) exec" where
  "collectOutput H binaryDataOutput' tempDir' outputPattern executionData =
     (case tempDir' of
        Some dir \<Rightarrow>
          (if binaryDataOutput' \<and> dir \<noteq> [] then
             io_bind (io_call (CollectBinaryOutput dir outputPattern) (collectBinaryOutput H dir outputPattern))
               (\<lambda>outputBinary.
                  if length outputBinary > 0
                  then io_return (executionData \<lparr> outputFilesCount := Some (length outputBinary),
                                                   binary := Some outputBinary \<rparr>)
                  else io_return executionData)
           else io_return executionData)
      | None \<Rightarrow> io_return executionData)"

text \<open>The message the \<open>catch\<close> block builds.\<close>

definition errorMessage :: "'w host \<Rightarrow> string \<Rightarrow> error \<Rightarrow> string" where
  "errorMessage H img err =
     (if isDockerConnectionError H err
      then formatDockerError H err ''connection'' ''Make sure Docker is running and accessible''
      else formatDockerError H err ''container execution'' (''Image: '' @ img))"

text \<open>The \<open>finally\<close> block: \<open>Promise.allSettled\<close> over the cleanup of every entry of
  \<open>tempDirectories\<close>. The cleanups are started for all entries and none is waited for
  before the next; the log lists them in the order of the entries.\<close>

definition cleanupAll :: "'w host \<Rightarrow> ('w, (error + unit) list) exec" where
  "cleanupAll H =
     io_bind io_locals (\<lambda>tempDirectories.
       allSettled (map (\<lambda>dir. io_call (CleanupTempDirectory dir) (cleanupTempDirectory H dir))
                       tempDirectories))"

subsection \<open>\<open>executeContainerWithBinary\<close>\<close>

text \<open>The \<open>try\<close> block.\<close>

definition executeContainerWithBinary_try :: "'w host \<Rightarrow> nat \<Rightarrow> RunContainerParams \<Rightarrow> ('w, ExecutionData) exec" where
  "executeContainerWithBinary_try H itemIndex params =
     io_bind (io_call (DetectDockerSocket (socketPathP params)) (detectDockerSocket H (socketPathP params)))
       (\<lambda>socketPath'.
     io_bind (validateImage H itemIndex (imageP params)) (\<lambda>_.
     io_bind (prepareBinary H itemIndex (binaryDataInput params) (binaryDataOutput params)
                (binaryFileMappings params)
                (baseConfig (imageP params) (entrypointP params) (commandP params) (envVars params) socketPath'))
       (\<lambda>staged.
     io_bind (io_call (ExecuteContainer (fst staged)) (executeContainer H (fst staged))) (\<lambda>result.
     collectOutput H (binaryDataOutput params) (snd staged) (outputFilePattern params)
       (prepareResult params (fst staged) (length (envVars params)) socketPath' itemIndex result)))))"

definition executeContainerWithBinary ::
  "'w host \<Rightarrow> nat \<Rightarrow> RunContainerParams \<Rightarrow> ('w, ExecutionData) exec" where
  "executeContainerWithBinary H itemIndex params =
     io_bind (io_assign (\<lambda>_. [])) (\<lambda>_.
     io_finally
       (io_catch (executeContainerWithBinary_try H itemIndex params)
          (\<lambda>err. io_throw (NodeOperationError (errorMessage H (imageP params) err) itemIndex)))
       (cleanupAll H))"

subsection \<open>\<open>RunContainer.execute\<close>\<close>

text \<open>The \<open>try\<close> block of one iteration.\<close>

definition execute_try :: "'w host \<Rightarrow> nat \<Rightarrow> RunContainerParams \<Rightarrow> ('w, ExecutionData) exec" where
  "execute_try H itemIndex params =
     io_bind (io_call (DetectDockerSocket (socketPathP params)) (detectDockerSocket H (socketPathP params)))
       (\<lambda>socketPath'.
     io_bind (validateImage H itemIndex (imageP params)) (\<lambda>_.
     io_bind (io_call (ProcessEnvironmentVariables itemIndex) (processEnvironmentVariables H itemIndex))
       (\<lambda>envResult.
     io_bind (prepareBinary H itemIndex (binaryDataInput params) (binaryDataOutput params)
                (binaryFileMappings params)
                (baseConfig (imageP params) (entrypointP params) (commandP params) (fst envResult) socketPath'))
       (\<lambda>staged.
     io_bind (io_call (ExecuteContainer (fst staged)) (executeContainer H (fst staged))) (\<lambda>result.
     collectOutput H (binaryDataOutput params) (snd staged) (outputFilePattern params)
       (prepareResult params (fst staged) (snd envResult) socketPath' itemIndex result))))))"

text \<open>The \<open>catch\<close> block of one iteration.\<close>

definition execute_catch ::
  "'w host \<Rightarrow> nat \<Rightarrow> RunContainerParams \<Rightarrow> NodeOutput list \<Rightarrow> error \<Rightarrow> ('w, NodeOutput list) exec" where
  "execute_catch H itemIndex params returnData err =
     (let message = errorMessage H (imageP params) err in
      if continueOnFail H then io_return (returnData @ [FailedItem message itemIndex])
      else io_throw (NodeOperationError message itemIndex))"

text \<open>The \<open>for\<close> loop over the items, from \<open>itemIndex\<close> on.\<close>

fun executeItems ::
  "'w host \<Rightarrow> nat \<Rightarrow> RunContainerParams list \<Rightarrow> NodeOutput list \<Rightarrow> ('w, NodeOutput list) exec" where
  "executeItems H itemIndex [] returnData = io_return returnData"
| "executeItems H itemIndex (params # rest) returnData =
     io_bind
       (io_catch
          (io_bind (execute_try H itemIndex params) (\<lambda>executionData.
             io_return (returnData @ [Executed executionData])))
          (execute_catch H itemIndex params returnData))
       (executeItems H (Suc itemIndex) rest)"

definition execute :: "'w host \<Rightarrow> RunContainerParams list \<Rightarrow> ('w, NodeOutput list) exec" where
  "execute H items =
     io_bind (io_assign (\<lambda>_. [])) (\<lambda>_.
     io_finally (executeItems H 0 items []) (cleanupAll H))"


section \<open>What the log of a run shows\<close>

text \<open>The directory an event acquired, and the directory an event tried to clean up.\<close>

fun acquiredBy :: "event \<Rightarrow> string option" where
  "acquiredBy (PrepareBinaryInput itemIndex mappings (Inr preparedBinary)) = Some (tempDir preparedBinary)"
| "acquiredBy (Mkdtemp prefix (Inr dir)) = Some dir"
| "acquiredBy e = None"

fun cleanedUp :: "event \<Rightarrow> string option" where
  "cleanedUp (CleanupTempDirectory dir r) = Some dir"
| "cleanedUp e = None"

definition acquired :: "event list \<Rightarrow> string list" where
  "acquired evs = List.map_filter acquiredBy evs"

definition cleanups :: "event list \<Rightarrow> string list" where
  "cleanups evs = List.map_filter cleanedUp evs"

text \<open>
  A log is settled when every directory it acquired has its cleanup attempt, in the
  order of acquisition, and the cleanup attempts are the log's last events.
\<close>

definition settled :: "event list \<Rightarrow> bool" where
  "settled evs \<longleftrightarrow>
     cleanups evs = acquired evs
   \<and> evs = takeWhile (\<lambda>e. cleanedUp e = None) evs @ filter (\<lambda>e. cleanedUp e \<noteq> None) evs"

text \<open>The configurations handed to \<open>executeContainer\<close>, and whether all of them name an
  image the validator accepts.\<close>

fun executedConfig :: "event \<Rightarrow> ContainerExecutionConfig option" where
  "executedConfig (ExecuteContainer containerConfig r) = Some containerConfig"
| "executedConfig e = None"

definition executedConfigs :: "event list \<Rightarrow> ContainerExecutionConfig list" where
  "executedConfigs evs = List.map_filter executedConfig evs"

definition validated :: "'w host \<Rightarrow> event list \<Rightarrow> bool" where
  "validated H evs \<longleftrightarrow> (\<forall>cfg \<in> set (executedConfigs evs). fst (validateDockerImageName H (imageRef cfg)))"

text \<open>The events that create, fill, read or remove a temporary directory.\<close>

fun touchesTempDir :: "event \<Rightarrow> bool" where
  "touchesTempDir (PrepareBinaryInput itemIndex mappings r) = True"
| "touchesTempDir (Mkdtemp prefix r) = True"
| "touchesTempDir (CreateOutputDirectory dir r) = True"
| "touchesTempDir (CollectBinaryOutput dir pattern r) = True"
| "touchesTempDir (CleanupTempDirectory dir r) = True"
| "touchesTempDir e = False"

text \<open>A run that staged nothing: no such event, no volumes and no limits in what the
  engine was given, and no binary output in the result.\<close>

definition unstaged :: "(error + ExecutionData) \<times> 'w \<times> event list \<times> string list \<Rightarrow> bool" where
  "unstaged r \<longleftrightarrow>
     (\<forall>e \<in> set (io_log r). \<not> touchesTempDir e)
   \<and> (\<forall>cfg \<in> set (executedConfigs (io_log r)). volumes cfg = None \<and> memory cfg = None \<and> cpuQuota cfg = None)
   \<and> (case io_result r of Inl err \<Rightarrow> True | Inr d \<Rightarrow> binary d = None \<and> outputFilesCount d = None)"

text \<open>The bind strings.\<close>

definition inputMounts :: "PreparedBinary \<Rightarrow> string list" where
  "inputMounts preparedBinary =
     map (\<lambda>mp. hostPath mp @ '':'' @ containerPath mp @ '':ro'') (mountPoints preparedBinary)"

definition outputMount :: "string \<Rightarrow> string" where
  "outputMount dir = dir @ ''/output:/output:rw''"

text \<open>
  The binds an acquisition calls for: the staged inputs read-only, then the output
  directory read-write when binary output is enabled; the output directory alone after
  \<open>mkdtemp\<close>. A log is mounted when every configuration the engine was given has the
  binds that the acquisitions of the log call for.
\<close>

fun mountsFor :: "bool \<Rightarrow> event \<Rightarrow> string list option" where
  "mountsFor bo (PrepareBinaryInput itemIndex mappings (Inr preparedBinary)) =
     Some (inputMounts preparedBinary @ (if bo then [outputMount (tempDir preparedBinary)] else []))"
| "mountsFor bo (Mkdtemp prefix (Inr dir)) = Some [outputMount dir]"
| "mountsFor bo e = None"

definition mountsOf :: "bool \<Rightarrow> event list \<Rightarrow> ContainerExecutionConfig \<Rightarrow> bool" where
  "mountsOf bo evs cfg \<longleftrightarrow>
     (\<forall>e \<in> set evs. case mountsFor bo e of None \<Rightarrow> True | Some vs \<Rightarrow> volumes cfg = Some vs)"

definition mounted :: "bool \<Rightarrow> event list \<Rightarrow> bool" where
  "mounted bo evs \<longleftrightarrow> (\<forall>cfg \<in> set (executedConfigs evs). mountsOf bo evs cfg)"

section \<open>Invariants of the computations\<close>

text \<open>
  The invariant of everything outside the \<open>finally\<close> blocks: what a computation adds to
  the log acquires exactly the directories it appends to \<open>tempDirectories\<close>, and cleans
  up none.
\<close>

definition tracks :: "('w, 'a) exec \<Rightarrow> bool" where
  "tracks m \<longleftrightarrow>
     (\<forall>w tr l. \<exists>new. io_log (m (w, tr, l)) = tr @ new
                   \<and> io_final_locals (m (w, tr, l)) = l @ acquired new
                   \<and> (\<forall>e \<in> set new. cleanedUp e = None))"

text \<open>Every run of \<open>m\<close> extends the log by events that, with the outcome, satisfy \<open>Q\<close>.\<close>

definition yields :: "('w, 'a) exec \<Rightarrow> (event list \<Rightarrow> error + 'a \<Rightarrow> bool) \<Rightarrow> bool" where
  "yields m Q \<longleftrightarrow>
     (\<forall>w tr l. \<exists>new. io_log (m (w, tr, l)) = tr @ new \<and> Q new (io_result (m (w, tr, l))))"

text \<open>Logs of staging events only, events of the harvest, and what the \<open>try\<close> block of
  an item maintains.\<close>

definition stagingOnly :: "event list \<Rightarrow> bool" where
  "stagingOnly evs \<longleftrightarrow> (\<forall>e \<in> set evs. touchesTempDir e)"

fun harvests :: "event \<Rightarrow> bool" where
  "harvests (CollectBinaryOutput dir pattern r) = True"
| "harvests e = False"

definition itemOK :: "'w host \<Rightarrow> RunContainerParams \<Rightarrow> event list \<Rightarrow> bool" where
  "itemOK H params evs \<longleftrightarrow>
     mounted (binaryDataOutput params) evs
   \<and> (\<forall>c \<in> set (executedConfigs evs).
        imageRef c = imageP params \<and> fst (validateDockerImageName H (imageP params)))"

section \<open>The resource limit estimator\<close>

text \<open>
  Modelled from the spec: the policy of \<open>calculateResourceLimits\<close>, which is defined in
  \<open>BinaryDataHelpers\<close> and is not among the sources (only its two call sites are). The
  specification names a fixed floor and a fixed ceiling for memory and for the CPU quota
  and a scaling of each with the staged input size; it gives no numbers.
\<close>

record LimitPolicy =
  memoryFloor :: nat
  memoryCeiling :: nat
  memoryScale :: "nat \<Rightarrow> nat"
  cpuFloor :: nat
  cpuCeiling :: nat
  cpuScale :: "nat \<Rightarrow> nat"

text \<open>Modelled from the spec: clamping between a floor and a ceiling.\<close>

definition clamp :: "nat \<Rightarrow> nat \<Rightarrow> nat \<Rightarrow> nat" where
  "clamp floor' ceiling' x = max floor' (min ceiling' x)"

text \<open>
  Modelled from the spec: \<open>estimate(totalInputBytes) -> (memoryBytes, cpuQuota)\<close>, the
  pure function that stands for the missing \<open>calculateResourceLimits\<close>: each component
  is its scaling of the total staged input size, clamped between its floor and its
  ceiling.
\<close>

definition estimate :: "LimitPolicy \<Rightarrow> nat \<Rightarrow> nat \<times> nat" where
  "estimate P totalInputBytes =
     (clamp (memoryFloor P) (memoryCeiling P) (memoryScale P totalInputBytes),
      clamp (cpuFloor P) (cpuCeiling P) (cpuScale P totalInputBytes))"

section \<open>Example engines and hosts\<close>

definition exampleParse :: "string \<Rightarrow> jsval option" where
  \<open>exampleParse s =
     (if s = ''{"Id":"c1"}'' then Some (Obj [(''Id'', Str ''c1'')])
      else if s = ''{"StatusCode":0}'' then Some (Obj [(''StatusCode'', Num 0)])
      else None)\<close>

definition ascii :: "byte list \<Rightarrow> string" where
  "ascii bs = map (\<lambda>b. char_of (unat b)) bs"

definition bytes :: "string \<Rightarrow> byte list" where
  "bytes s = map (\<lambda>c. of_nat (of_char c)) s"

text \<open>An engine without state that answers each request by \<open>f\<close>.\<close>

definition exampleEngine :: "(request \<Rightarrow> http_outcome) \<Rightarrow> unit engine" where
  "exampleEngine f = \<lparr> http_request = (\<lambda>req w. (f req, w)), JSON_parse = exampleParse, toString = ascii \<rparr>"

fun healthy :: "request \<Rightarrow> http_outcome" where
  "healthy (PullImage i) = Response 200 []"
| \<open>healthy (CreateContainer i c e t) = Response 201 (bytes ''{"Id":"c1"}'')\<close>
| "healthy (StartContainer c) = Response 204 []"
| \<open>healthy (WaitContainer c) = Response 200 (bytes ''{"StatusCode":0}'')\<close>
| "healthy (GetLogs c) = Response 200 [1, 0, 0, 0, 0, 0, 0, 2, 104, 105]"
| "healthy (RemoveContainer c) = Response 204 []"


text \<open>Runs of \<open>runContainer\<close> against engines that fail at one request.\<close>

definition exampleRun :: "(request \<Rightarrow> http_outcome) \<Rightarrow>
    (error + byte list \<times> byte list \<times> jsval) \<times> unit \<times> (request \<times> http_outcome) list \<times> unit" where
  "exampleRun f = runContainer (exampleEngine f) ''alpine'' ''echo'' ''hi'' [] ((), [], ())"

definition pullRefused :: "request \<Rightarrow> http_outcome" where
  "pullRefused = healthy (PullImage ''alpine'' := RequestError ''ECONNREFUSED'')"

definition pullRejected :: "request \<Rightarrow> http_outcome" where
  "pullRejected = healthy (PullImage ''alpine'' := Response 500 (bytes ''registry unreachable''))"

definition waitFails :: "request \<Rightarrow> http_outcome" where
  "waitFails = healthy (WaitContainer (Str ''c1'') := Response 500 (bytes ''boom''))"

definition removeFails :: "request \<Rightarrow> http_outcome" where
  "removeFails = healthy (RemoveContainer (Str ''c1'') := Response 409 (bytes ''busy''))"

text \<open>A host whose helpers succeed, except that the engine does not know the image
  \<open>missing\<close>, the validator rejects the empty image, and the cleanup of \<open>/tmp/in\<close> fails.\<close>

fun errorText :: "error \<Rightarrow> string" where
  "errorText (Error msg) = msg"
| "errorText (SocketError msg) = msg"
| "errorText RangeError = ''RangeError''"
| "errorText TypeError = ''TypeError''"
| "errorText (NodeOperationError msg itemIndex) = msg"

definition exampleHost :: "unit host" where
  "exampleHost =
     \<lparr> detectDockerSocket = (\<lambda>path w. (Inr path, w)),
       validateDockerImageName =
         (\<lambda>img. if img = [] then (False, [''Image name cannot be empty'', ''Image name is required''])
                 else (True, [])),
       processEnvironmentVariables = (\<lambda>itemIndex w. (Inr ([''A=1''], 1), w)),
       prepareBinaryInput =
         (\<lambda>itemIndex mappings w.
            (Inr \<lparr> tempDir = ''/tmp/in'',
                   mountPoints = map (\<lambda>m. \<lparr> hostPath = ''/tmp/in/'' @ fst m, containerPath = snd m \<rparr>) mappings,
                   fileSizes = map (\<lambda>m. 1024) mappings \<rparr>, w)),
       mkdtemp = (\<lambda>prefix w. (Inr (''/tmp/'' @ prefix @ ''x1''), w)),
       createOutputDirectory = (\<lambda>dir w. (Inr (), w)),
       calculateResourceLimits = (\<lambda>sizes. (536870912, 50000)),
       executeContainer =
         (\<lambda>cfg w. (if imageRef cfg = ''missing'' then Inl (Error ''No such image'')
                    else Inr \<lparr> stdout = ''hello'', stderr = [], exitCode = 0, success = True, hasOutput = True \<rparr>, w)),
       collectBinaryOutput = (\<lambda>dir pattern w. (Inr [(''result.txt'', ''data'')], w)),
       cleanupTempDirectory = (\<lambda>dir w. (if dir = ''/tmp/in'' then Inl (Error ''EBUSY'') else Inr (), w)),
       isDockerConnectionError = (\<lambda>err. False),
       formatDockerError =
         (\<lambda>err operation hint. ''Docker '' @ operation @ '' error: '' @ errorText err @ ''. '' @ hint),
       continueOnFail = True \<rparr>"

definition exampleParams :: RunContainerParams where
  "exampleParams =
     \<lparr> imageP = ''alpine'', entrypointP = [], commandP = ''cat /input/a'', socketPathP = ''/var/run/docker.sock'',
       envVars = [], binaryDataInput = True, binaryDataOutput = True,
       binaryFileMappings = [(''data'', ''/input/a'')], outputFilePattern = ''*'' \<rparr>"

definition exampleLog :: "event list" where
  "exampleLog =
     [DetectDockerSocket ''/var/run/docker.sock'' (Inr ''/var/run/docker.sock''),
      PrepareBinaryInput 0 [(''data'', ''/input/a'')]
        (Inr \<lparr> tempDir = ''/tmp/in'',
               mountPoints = [\<lparr> hostPath = ''/tmp/in/data'', containerPath = ''/input/a'' \<rparr>],
               fileSizes = [1024] \<rparr>),
      CreateOutputDirectory ''/tmp/in'' (Inr ()),
      ExecuteContainer
        \<lparr> imageRef = ''alpine'', entrypoint = None, command = Some ''cat /input/a'',
          environmentVariables = [], socketPath = ''/var/run/docker.sock'', autoRemove = True,
          pullPolicy = Missing,
          volumes = Some [''/tmp/in/data:/input/a:ro'', ''/tmp/in/output:/output:rw''],
          memory = Some 536870912, cpuQuota = Some 50000 \<rparr>
        (Inr \<lparr> stdout = ''hello'', stderr = [], exitCode = 0, success = True, hasOutput = True \<rparr>),
      CollectBinaryOutput ''/tmp/in'' ''*'' (Inr [(''result.txt'', ''data'')]),
      CleanupTempDirectory ''/tmp/in'' (Inl (Error ''EBUSY''))]"

definition exampleBatch :: "RunContainerParams list" where
  "exampleBatch =
     [exampleParams,
      exampleParams \<lparr> binaryDataInput := False, imageP := ''missing'' \<rparr>,
      exampleParams \<lparr> imageP := [] \<rparr>]"

definition exampleBatchLog :: "event list" where
  "exampleBatchLog =
     [DetectDockerSocket ''/var/run/docker.sock'' (Inr ''/var/run/docker.sock''),
      ProcessEnvironmentVariables 0 (Inr ([''A=1''], 1)),
      PrepareBinaryInput 0 [(''data'', ''/input/a'')]
        (Inr \<lparr> tempDir = ''/tmp/in'',
               mountPoints = [\<lparr> hostPath = ''/tmp/in/data'', containerPath = ''/input/a'' \<rparr>],
               fileSizes = [1024] \<rparr>),
      CreateOutputDirectory ''/tmp/in'' (Inr ()),
      ExecuteContainer
        \<lparr> imageRef = ''alpine'', entrypoint = None, command = Some ''cat /input/a'',
          environmentVariables = [''A=1''], socketPath = ''/var/run/docker.sock'', autoRemove = True,
          pullPolicy = Missing,
          volumes = Some [''/tmp/in/data:/input/a:ro'', ''/tmp/in/output:/output:rw''],
          memory = Some 536870912, cpuQuota = Some 50000 \<rparr>
        (Inr \<lparr> stdout = ''hello'', stderr = [], exitCode = 0, success = True, hasOutput = True \<rparr>),
      CollectBinaryOutput ''/tmp/in'' ''*'' (Inr [(''result.txt'', ''data'')]),
      DetectDockerSocket ''/var/run/docker.sock'' (Inr ''/var/run/docker.sock''),
      ProcessEnvironmentVariables 1 (Inr ([''A=1''], 1)),
      Mkdtemp ''n8n-docker-output-'' (Inr ''/tmp/n8n-docker-output-x1''),
      CreateOutputDirectory ''/tmp/n8n-docker-output-x1'' (Inr ()),
      ExecuteContainer
        \<lparr> imageRef = ''missing'', entrypoint = None, command = Some ''cat /input/a'',
          environmentVariables = [''A=1''], socketPath = ''/var/run/docker.sock'', autoRemove = True,
          pullPolicy = Missing,
          volumes = Some [''/tmp/n8n-docker-output-x1/output:/output:rw''],
          memory = None, cpuQuota = None \<rparr>
        (Inl (Error ''No such image'')),
      DetectDockerSocket ''/var/run/docker.sock'' (Inr ''/var/run/docker.sock''),
      CleanupTempDirectory ''/tmp/in'' (Inl (Error ''EBUSY'')),
      CleanupTempDirectory ''/tmp/n8n-docker-output-x1'' (Inr ())]"

text \<open>A policy for the estimator.\<close>

definition examplePolicy :: LimitPolicy where
  "examplePolicy =
     \<lparr> memoryFloor = 536870912, memoryCeiling = 4294967296, memoryScale = (\<lambda>n. 4 * n),
       cpuFloor = 50000, cpuCeiling = 200000, cpuScale = (\<lambda>n. n div 1024) \<rparr>"

section \<open>The log demultiplexer: proofs\<close>

lemma be32_value:
  assumes "n < 2 ^ 32"
  shows "unat (of_nat (n div 2 ^ 24) :: byte) * 2 ^ 24 + unat (of_nat (n div 2 ^ 16) :: byte) * 2 ^ 16
         + unat (of_nat (n div 2 ^ 8) :: byte) * 2 ^ 8 + unat (of_nat n :: byte) = n"
proof -
  define q1 where "q1 = n div 256"
  define q2 where "q2 = q1 div 256"
  define q3 where "q3 = q2 div 256"
  have u: "\<And>k. unat (of_nat k :: byte) = k mod 256"
    by (simp add: unat_of_nat)
  have d8: "n div 2 ^ 8 = q1" by (simp add: q1_def)
  have d16: "n div 2 ^ 16 = q2"
    using div_mult2_eq [of n 256 256] by (simp add: q1_def q2_def)
  have d24: "n div 2 ^ 24 = q3"
    using div_mult2_eq [of n 65536 256] d16 by (simp add: q3_def)
  have s3: "q3 < 256" using assms d24 by (simp add: less_mult_imp_div_less)
  have e0: "n = q1 * 256 + n mod 256" by (simp add: q1_def)
  have e1: "q1 = q2 * 256 + q1 mod 256" by (simp add: q2_def)
  have e2: "q2 = q3 * 256 + q2 mod 256" by (simp add: q3_def)
  have "q3 * 2 ^ 24 + (q2 mod 256) * 2 ^ 16 + (q1 mod 256) * 2 ^ 8 + n mod 256 = n"
    using e0 e1 e2 by simp
  then show ?thesis
    unfolding u d8 d16 d24 using s3 by simp
qed

lemma length_frameHeader: "length (frameHeader t n) = 8"
  by (simp add: frameHeader_def writeUInt32BE_def)

lemma length_encodeFrame: "length (encodeFrame f) = 8 + length (snd f)"
  by (simp add: encodeFrame_def length_frameHeader)

lemma readUInt32BE_header:
  assumes "n < 2 ^ 32"
  shows "readUInt32BE (pre @ frameHeader t n @ rest) (length pre + 4) = Inr n"
proof -
  have buf: "pre @ frameHeader t n @ rest = (pre @ [t, 0, 0, 0]) @ (writeUInt32BE n @ rest)"
    by (simp add: frameHeader_def)
  have off: "length pre + 4 = length (pre @ [t, 0, 0, 0])" by simp
  show ?thesis
    unfolding buf off using be32_value [OF assms]
    by (simp add: readUInt32BE_def writeUInt32BE_def nth_append del: append_assoc)
qed

lemma slice_payload:
  "slice_buf (pre @ frameHeader t n @ rest) (length pre + 8) (length pre + 8 + n) = take n rest"
proof -
  have buf: "pre @ frameHeader t n @ rest = (pre @ frameHeader t n) @ rest" by simp
  have off: "length pre + 8 = length (pre @ frameHeader t n)"
    by (simp add: length_frameHeader)
  show ?thesis
    unfolding buf off by (simp add: slice_buf_def del: append_assoc)
qed

text \<open>One turn of the loop at a complete header: the payload is what is there, up to
  the declared length.\<close>

lemma parseLogs_header:
  assumes "n < 2 ^ 32"
  shows "parseLogs (pre @ frameHeader t n @ rest) (length pre) out err =
         parseLogs (pre @ frameHeader t n @ rest) (length pre + 8 + n)
           (if t = 1 then out @ take n rest else out)
           (if t = 1 then err else if t = 2 then err @ take n rest else err)"
proof -
  let ?buf = "pre @ frameHeader t n @ rest"
  have lt: "length pre < length ?buf"
    by (simp add: length_frameHeader)
  have tag: "?buf ! length pre = t"
    by (simp add: frameHeader_def)
  have rd: "readUInt32BE ?buf (length pre + 4) = Inr n"
    by (rule readUInt32BE_header [OF assms])
  have sl: "slice_buf ?buf (length pre + 8) (length pre + 8 + n) = take n rest"
    by (rule slice_payload)
  show ?thesis
    by (subst parseLogs.simps) (simp only: lt tag rd sl if_True Let_def sum.case)
qed

lemma parseLogs_end:
  assumes "length buf \<le> offset"
  shows "parseLogs buf offset out err = Inr (out, err)"
  using assms by (subst parseLogs.simps) simp

text \<open>The loop over a run of complete frames, whatever follows them.\<close>

lemma parseLogs_frames:
  assumes "\<forall>f \<in> set frames. length (snd f) < 2 ^ 32"
  shows "parseLogs (pre @ encodeFrames frames @ rest) (length pre) out err =
         parseLogs (pre @ encodeFrames frames @ rest) (length pre + length (encodeFrames frames))
           (out @ payloadsOf 1 frames) (err @ payloadsOf 2 frames)"
  using assms
proof (induction frames arbitrary: pre out err)
  case Nil
  show ?case
    by (simp add: encodeFrames_def payloadsOf_def)
next
  case (Cons f frames)
  obtain t p where f: "f = (t, p)" by (cases f)
  have len: "length p < 2 ^ 32" using Cons.prems f by simp
  have tl: "\<forall>f \<in> set frames. length (snd f) < 2 ^ 32" using Cons.prems by simp
  let ?buf = "pre @ encodeFrames (f # frames) @ rest"
  let ?pre = "pre @ encodeFrame (t, p)"
  let ?out = "if t = 1 then out @ p else out"
  let ?err = "if t = 1 then err else if t = 2 then err @ p else err"
  have buf1: "?buf = pre @ frameHeader t (length p) @ (p @ encodeFrames frames @ rest)"
    by (simp add: encodeFrames_def encodeFrame_def f)
  have buf2: "?buf = ?pre @ encodeFrames frames @ rest"
    by (simp add: encodeFrames_def f)
  have off: "length pre + 8 + length p = length ?pre"
    by (simp add: length_encodeFrame)
  have "parseLogs ?buf (length pre) out err = parseLogs ?buf (length pre + 8 + length p) ?out ?err"
    unfolding buf1 using parseLogs_header [OF len, of pre t "p @ encodeFrames frames @ rest" out err]
    by simp
  also have "\<dots> = parseLogs (?pre @ encodeFrames frames @ rest) (length ?pre) ?out ?err"
    unfolding off using buf2 by simp
  also have "\<dots> = parseLogs (?pre @ encodeFrames frames @ rest)
                      (length ?pre + length (encodeFrames frames))
                      (?out @ payloadsOf 1 frames) (?err @ payloadsOf 2 frames)"
    by (rule Cons.IH [OF tl])
  finally have step:
    "parseLogs ?buf (length pre) out err =
     parseLogs (?pre @ encodeFrames frames @ rest) (length ?pre + length (encodeFrames frames))
       (?out @ payloadsOf 1 frames) (?err @ payloadsOf 2 frames)" .
  have e1: "length ?pre + length (encodeFrames frames) = length pre + length (encodeFrames (f # frames))"
    by (simp add: encodeFrames_def f)
  have e2: "?out @ payloadsOf 1 frames = out @ payloadsOf 1 (f # frames)"
    by (simp add: payloadsOf_def f)
  have e3: "?err @ payloadsOf 2 frames = err @ payloadsOf 2 (f # frames)"
    by (simp add: payloadsOf_def f)
  show ?case
    using step unfolding e1 e2 e3 buf2 [symmetric] .
qed

text \<open>
  C1. For frames with tag 1 (stdout) or 2 (stderr) and a payload of at most \<open>2^32 - 1\<close>
  bytes, demultiplexing the concatenation of the encoded frames gives the type-1
  payloads in order as stdout and the type-2 payloads in order as stderr.
\<close>

theorem demultiplex_roundtrip:
  assumes "\<forall>f \<in> set frames. (fst f = 1 \<or> fst f = 2) \<and> length (snd f) \<le> 2 ^ 32 - 1"
  shows "demultiplex (encodeFrames frames) = Inr (payloadsOf 1 frames, payloadsOf 2 frames)"
proof -
  have "\<forall>f \<in> set frames. length (snd f) < 2 ^ 32" using assms by auto
  from parseLogs_frames [OF this, of "[]" "[]" "[]" "[]"] show ?thesis
    by (simp add: demultiplex_def parseLogs_end)
qed

theorem demultiplex_roundtrip_witness:
  "demultiplex (encodeFrames [(1, [104, 105]), (2, [33]), (1, [])]) = Inr ([104, 105], [33])
   \<and> encodeFrames [(1, [104, 105]), (2, [33]), (1, [])]
       = [1,0,0,0,0,0,0,2,104,105, 2,0,0,0,0,0,0,1,33, 1,0,0,0,0,0,0,0]"
proof -
  have "payloadsOf 1 [(1, [104, 105 :: byte]), (2, [33]), (1, [])] = [104, 105]"
    "payloadsOf 2 [(1, [104, 105 :: byte]), (2, [33]), (1, [])] = [33]"
    by (simp_all add: payloadsOf_def)
  moreover have "encodeFrames [(1, [104, 105]), (2, [33]), (1, [])]
       = [1,0,0,0,0,0,0,2,104,105, 2,0,0,0,0,0,0,1,33, 1,0,0,0,0,0,0,0]"
    by (simp add: encodeFrames_def encodeFrame_def frameHeader_def writeUInt32BE_def)
  ultimately show ?thesis
    using demultiplex_roundtrip [of "[(1, [104, 105]), (2, [33]), (1, [])]"] by simp
qed

text \<open>
  C2, as amended. When complete frames are followed by a last frame whose header is
  complete and whose payload is shorter than the header declares, the demultiplexer
  raises no error, the complete frames are decoded in full, and the bytes of the last
  payload that are there are appended to the stream its tag names: they are not
  dropped.
\<close>

theorem demultiplex_short_payload:
  assumes "\<forall>f \<in> set frames. length (snd f) \<le> 2 ^ 32 - 1"
    and "n \<le> 2 ^ 32 - 1" and "length p < n"
  shows "demultiplex (encodeFrames frames @ frameHeader t n @ p) =
         Inr (payloadsOf 1 frames @ (if t = 1 then p else []),
              payloadsOf 2 frames @ (if t = 2 then p else []))"
proof -
  let ?buf = "encodeFrames frames @ frameHeader t n @ p"
  let ?out = "payloadsOf 1 frames" and ?err = "payloadsOf 2 frames"
  have small: "\<forall>f \<in> set frames. length (snd f) < 2 ^ 32" using assms(1) by auto
  have n: "n < 2 ^ 32" using assms(2) by simp
  have "demultiplex ?buf = parseLogs ?buf (length (encodeFrames frames)) ?out ?err"
    using parseLogs_frames [OF small, of "[]" "frameHeader t n @ p" "[]" "[]"]
    by (simp add: demultiplex_def)
  also have "\<dots> = parseLogs ?buf (length (encodeFrames frames) + 8 + n)
                      (if t = 1 then ?out @ take n p else ?out)
                      (if t = 1 then ?err else if t = 2 then ?err @ take n p else ?err)"
    by (rule parseLogs_header [OF n])
  also have "\<dots> = Inr (if t = 1 then ?out @ take n p else ?out,
                        if t = 1 then ?err else if t = 2 then ?err @ take n p else ?err)"
    using assms(3) by (intro parseLogs_end) (simp add: length_frameHeader)
  finally show ?thesis
    using assms(3) by simp
qed

theorem demultiplex_short_payload_witness:
  "demultiplex ([1,0,0,0,0,0,0,1,33] @ [2,0,0,0,0,0,0,5] @ [104, 105]) = Inr ([33], [104, 105])"
proof -
  have "encodeFrames [(1, [33 :: byte])] = [1,0,0,0,0,0,0,1,33]"
    by (simp add: encodeFrames_def encodeFrame_def frameHeader_def writeUInt32BE_def)
  moreover have "frameHeader 2 5 = [2,0,0,0,0,0,0,5]"
    by (simp add: frameHeader_def writeUInt32BE_def)
  moreover have "payloadsOf 1 [(1, [33 :: byte])] = [33]" "payloadsOf 2 [(1, [33 :: byte])] = []"
    by (simp_all add: payloadsOf_def)
  ultimately show ?thesis
    using demultiplex_short_payload [of "[(1, [33])]" 5 "[104, 105]" 2] by simp
qed

text \<open>
  C2, as stated, fails: three bytes after a complete frame are not dropped but make
  the header read raise, so the decoded frame is lost too; and the two bytes of a
  payload declared as five are kept.
\<close>

theorem demultiplex_truncated_counterexample:
  "demultiplex [1,0,0,0,0,0,0,1,33, 2,0,0] = Inl RangeError
   \<and> demultiplex [1,0,0,0,0,0,0,5,104,105] = Inr ([104, 105], [])"
  by (simp add: demultiplex_def parseLogs.simps readUInt32BE_def slice_buf_def)

section \<open>The engine transport: proofs\<close>

lemma io_bind_ask:
  "io_bind (io_ask ev act) f (w, tr, l) = (case act w of (r, w') \<Rightarrow> f r (w', tr @ [ev r], l))"
  by (simp add: io_bind_def io_ask_def split: prod.splits)

lemma io_bind_lift:
  "io_bind (io_lift r) f s = (case r of Inl e \<Rightarrow> (Inl e, s) | Inr a \<Rightarrow> f a s)"
  by (simp add: io_bind_def io_lift_def split: sum.splits)

lemma io_bind_assoc:
  "io_bind (io_bind m f) g = io_bind m (\<lambda>a. io_bind (f a) g)"
  by (rule ext) (simp add: io_bind_def split: prod.splits sum.splits)

lemma io_bind_return: "io_bind (io_return x) f s = f x s"
  by (simp add: io_bind_def io_return_def)

lemma io_bind_throw: "io_bind (io_throw e) f s = (Inl e, s)"
  by (simp add: io_bind_def io_throw_def)

lemmas io_simps = io_bind_ask io_bind_lift io_bind_assoc io_bind_return io_bind_throw

lemma dockerRequest_run:
  "dockerRequest E req (w, tr, l) =
     (dockerResponse E (fst (http_request E req w)), snd (http_request E req w),
      tr @ [(req, fst (http_request E req w))], l)"
  by (simp add: dockerRequest_def send_def io_bind_def io_ask_def io_lift_def split: prod.splits)

text \<open>
  C6. \<open>dockerRequest\<close> settles with what the response handler makes of the engine's
  answer. For a response, with \<open>JSON.parse\<close> rejecting the empty text as it does: a 2xx
  status with a body that parses resolves with the parsed value, with an empty body
  with the empty object, with a body that does not parse with the body itself; the
  promise rejects exactly when the status is outside 200..299, and the error's message
  then holds the status code and the body as received.
\<close>

theorem dockerRequest_contract:
  assumes "JSON_parse E [] = None"
  shows "io_result (dockerRequest E req (w, tr, l)) = dockerResponse E (fst (http_request E req w))
       \<and> (let body = toString E buffer;
               ok = (200 \<le> statusCode \<and> statusCode < 300);
               r = dockerResponse E (Response statusCode buffer)
           in (\<forall>v. ok \<and> JSON_parse E body = Some v \<longrightarrow> r = Inr v)
            \<and> (ok \<and> body = [] \<longrightarrow> r = Inr (Obj []))
            \<and> (ok \<and> body \<noteq> [] \<and> JSON_parse E body = None \<longrightarrow> r = Inr (Str body))
            \<and> (isl r \<longleftrightarrow> \<not> ok)
            \<and> (\<not> ok \<longrightarrow> r = Inl (Error (''Docker API Error: '' @ decimal statusCode @ '' - '' @ body @ '' ''))))"
proof -
  have "io_result (dockerRequest E req (w, tr, l)) = dockerResponse E (fst (http_request E req w))"
    by (simp add: dockerRequest_run io_result_def)
  moreover have "\<And>v. JSON_parse E (toString E buffer) = Some v \<Longrightarrow> toString E buffer \<noteq> []"
    using assms by auto
  ultimately show ?thesis
    by (auto simp add: dockerResponse_def Let_def split: option.splits)
qed


lemma ascii_bytes [simp]: "ascii (bytes s) = s"
  by (induction s) (simp_all add: ascii_def bytes_def unat_of_nat)

lemma ascii_Nil [simp]: "ascii [] = []"
  by (simp add: ascii_def)

theorem dockerRequest_contract_witness:
  \<open>dockerResponse (exampleEngine healthy) (Response 201 (bytes ''{"Id":"c1"}'')) = Inr (Obj [(''Id'', Str ''c1'')])
   \<and> dockerResponse (exampleEngine healthy) (Response 204 []) = Inr (Obj [])
   \<and> dockerResponse (exampleEngine healthy) (Response 200 (bytes ''hello'')) = Inr (Str ''hello'')
   \<and> dockerResponse (exampleEngine healthy) (Response 404 (bytes ''no such image''))
       = Inl (Error ''Docker API Error: 404 - no such image '')\<close>
proof -
  have parse: "JSON_parse (exampleEngine healthy) [] = None"
    by (simp add: exampleEngine_def exampleParse_def)
  have d: "decimal 404 = ''404''"
    by code_simp
  have e: \<open>exampleParse ''{"Id":"c1"}'' = Some (Obj [(''Id'', Str ''c1'')])\<close> "exampleParse ''hello'' = None"
    by (simp_all add: exampleParse_def)
  show ?thesis
    using dockerRequest_contract [OF parse, of "PullImage []" "()" "[]" "()" \<open>bytes ''{"Id":"c1"}''\<close> 201]
      dockerRequest_contract [OF parse, of "PullImage []" "()" "[]" "()" "[]" 204]
      dockerRequest_contract [OF parse, of "PullImage []" "()" "[]" "()" "bytes ''hello''" 200]
      dockerRequest_contract [OF parse, of "PullImage []" "()" "[]" "()" "bytes ''no such image''" 404]
    by (simp add: Let_def exampleEngine_def d e)
qed

section \<open>The run's lifecycle: proofs\<close>

text \<open>The run, request by request.\<close>

lemma runContainer_unfold:
  "runContainer E img cmd args env (w, tr, ()) =
    (case http_request E (PullImage img) w of (o1, w1) \<Rightarrow>
     let tr1 = tr @ [(PullImage img, o1)] in
     case pullResponse o1 of Inl e \<Rightarrow> (Inl e, w1, tr1, ()) | Inr _ \<Rightarrow>
    (case http_request E (createBody img cmd args env) w1 of (o2, w2) \<Rightarrow>
     let tr2 = tr1 @ [(createBody img cmd args env, o2)] in
     case dockerResponse E o2 of Inl e \<Rightarrow> (Inl e, w2, tr2, ()) | Inr createRes \<Rightarrow>
     case getProp createRes ''Id'' of Inl e \<Rightarrow> (Inl e, w2, tr2, ()) | Inr containerId \<Rightarrow>
    (case http_request E (StartContainer containerId) w2 of (o3, w3) \<Rightarrow>
     let tr3 = tr2 @ [(StartContainer containerId, o3)] in
     case dockerResponse E o3 of Inl e \<Rightarrow> (Inl e, w3, tr3, ()) | Inr _ \<Rightarrow>
    (case http_request E (WaitContainer containerId) w3 of (o4, w4) \<Rightarrow>
     let tr4 = tr3 @ [(WaitContainer containerId, o4)] in
     case dockerResponse E o4 of Inl e \<Rightarrow> (Inl e, w4, tr4, ()) | Inr waitRes \<Rightarrow>
     case getProp waitRes ''StatusCode'' of Inl e \<Rightarrow> (Inl e, w4, tr4, ()) | Inr statusCode \<Rightarrow>
    (case http_request E (GetLogs containerId) w4 of (o5, w5) \<Rightarrow>
     let tr5 = tr4 @ [(GetLogs containerId, o5)] in
     case logsResponse o5 of Inl e \<Rightarrow> (Inl e, w5, tr5, ()) | Inr logsBuffer \<Rightarrow>
     case demultiplex logsBuffer of Inl e \<Rightarrow> (Inl e, w5, tr5, ()) | Inr logs \<Rightarrow>
    (case http_request E (RemoveContainer containerId) w5 of (o6, w6) \<Rightarrow>
     let tr6 = tr5 @ [(RemoveContainer containerId, o6)] in
     case dockerResponse E o6 of Inl e \<Rightarrow> (Inl e, w6, tr6, ())
     | Inr _ \<Rightarrow> (Inr (fst logs, snd logs, statusCode), w6, tr6, ())))))))"
  by (simp add: runContainer_def dockerRequest_def send_def io_simps io_return_def Let_def
           split: prod.splits sum.splits)

lemmas example_defs = exampleRun_def exampleEngine_def exampleParse_def pullResponse_def
  logsResponse_def dockerResponse_def createBody_def fullCmd_def Let_def demultiplex_def
  parseLogs.simps readUInt32BE_def slice_buf_def

lemma decimal_examples: "decimal 500 = ''500''" "decimal 409 = ''409''" "decimal 404 = ''404''"
  by code_simp+

lemma exampleRun_pullRejected:
  \<open>exampleRun pullRejected =
     (Inr ([104, 105], [], Num 0), (),
      [(PullImage ''alpine'', Response 500 (bytes ''registry unreachable'')),
       (CreateContainer ''alpine'' (Some [''echo'', ''hi'']) [] False, Response 201 (bytes ''{"Id":"c1"}'')),
       (StartContainer (Str ''c1''), Response 204 []),
       (WaitContainer (Str ''c1''), Response 200 (bytes ''{"StatusCode":0}'')),
       (GetLogs (Str ''c1''), Response 200 [1, 0, 0, 0, 0, 0, 0, 2, 104, 105]),
       (RemoveContainer (Str ''c1''), Response 204 [])], ())\<close>
  unfolding exampleRun_def runContainer_unfold
  by (simp add: example_defs pullRejected_def)

lemma exampleRun_waitFails:
  \<open>exampleRun waitFails =
     (Inl (Error ''Docker API Error: 500 - boom ''), (),
      [(PullImage ''alpine'', Response 200 []),
       (CreateContainer ''alpine'' (Some [''echo'', ''hi'']) [] False, Response 201 (bytes ''{"Id":"c1"}'')),
       (StartContainer (Str ''c1''), Response 204 []),
       (WaitContainer (Str ''c1''), Response 500 (bytes ''boom''))], ())\<close>
  unfolding exampleRun_def runContainer_unfold
  by (simp add: example_defs waitFails_def decimal_examples)

lemma exampleRun_removeFails:
  \<open>exampleRun removeFails =
     (Inl (Error ''Docker API Error: 409 - busy ''), (),
      [(PullImage ''alpine'', Response 200 []),
       (CreateContainer ''alpine'' (Some [''echo'', ''hi'']) [] False, Response 201 (bytes ''{"Id":"c1"}'')),
       (StartContainer (Str ''c1''), Response 204 []),
       (WaitContainer (Str ''c1''), Response 200 (bytes ''{"StatusCode":0}'')),
       (GetLogs (Str ''c1''), Response 200 [1, 0, 0, 0, 0, 0, 0, 2, 104, 105]),
       (RemoveContainer (Str ''c1''), Response 409 (bytes ''busy''))], ())\<close>
  unfolding exampleRun_def runContainer_unfold
  by (simp add: example_defs removeFails_def decimal_examples)

text \<open>
  C3, as amended. When the wait request or the logs request of a run fails, the run
  ends with that error and no remove request is made; and when the remove request
  fails, its error is what the run ends with.
\<close>

theorem runContainer_no_teardown:
  "let r = runContainer E img cmd args env (w, [], ()) in
     (\<forall>cid out e. (WaitContainer cid, out) \<in> set (io_log r) \<and> dockerResponse E out = Inl e \<longrightarrow>
        io_result r = Inl e \<and> (\<forall>c out'. (RemoveContainer c, out') \<notin> set (io_log r)))
   \<and> (\<forall>cid out e. (GetLogs cid, out) \<in> set (io_log r) \<and> logsResponse out = Inl e \<longrightarrow>
        io_result r = Inl e \<and> (\<forall>c out'. (RemoveContainer c, out') \<notin> set (io_log r)))
   \<and> (\<forall>cid out e. (RemoveContainer cid, out) \<in> set (io_log r) \<and> dockerResponse E out = Inl e \<longrightarrow>
        io_result r = Inl e)"
  unfolding runContainer_unfold
  by (auto simp add: io_result_def io_log_def Let_def createBody_def split: prod.splits sum.splits)

theorem runContainer_no_teardown_witness:
  "io_result (exampleRun waitFails) = Inl (Error ''Docker API Error: 500 - boom '')
   \<and> (\<forall>c out. (RemoveContainer c, out) \<notin> set (io_log (exampleRun waitFails)))
   \<and> io_result (exampleRun removeFails) = Inl (Error ''Docker API Error: 409 - busy '')"
proof -
  have mem: "(WaitContainer (Str ''c1''), Response 500 (bytes ''boom'')) \<in> set (io_log (exampleRun waitFails))"
    by (simp add: exampleRun_waitFails io_log_def)
  have resp: "dockerResponse (exampleEngine waitFails) (Response 500 (bytes ''boom''))
              = Inl (Error ''Docker API Error: 500 - boom '')"
    by (simp add: dockerResponse_def exampleEngine_def decimal_examples)
  have mem': "(RemoveContainer (Str ''c1''), Response 409 (bytes ''busy'')) \<in> set (io_log (exampleRun removeFails))"
    by (simp add: exampleRun_removeFails io_log_def)
  have resp': "dockerResponse (exampleEngine removeFails) (Response 409 (bytes ''busy''))
              = Inl (Error ''Docker API Error: 409 - busy '')"
    by (simp add: dockerResponse_def exampleEngine_def decimal_examples)
  from runContainer_no_teardown [of "exampleEngine waitFails" "''alpine''" "''echo''" "''hi''" "[]" "()"]
    runContainer_no_teardown [of "exampleEngine removeFails" "''alpine''" "''echo''" "''hi''" "[]" "()"]
    mem resp mem' resp'
  show ?thesis
    unfolding exampleRun_def Let_def by blast
qed

text \<open>
  C3, as stated, fails: with a wait request answered by status 500 the run makes no
  remove request, and a remove request answered by status 409 makes the run fail after
  its logs were decoded.
\<close>

theorem runContainer_teardown_counterexample:
  "io_result (exampleRun waitFails) = Inl (Error ''Docker API Error: 500 - boom '')
   \<and> map fst (io_log (exampleRun waitFails)) =
       [PullImage ''alpine'', CreateContainer ''alpine'' (Some [''echo'', ''hi'']) [] False,
        StartContainer (Str ''c1''), WaitContainer (Str ''c1'')]
   \<and> io_result (exampleRun removeFails) = Inl (Error ''Docker API Error: 409 - busy '')"
  by (simp add: exampleRun_waitFails exampleRun_removeFails io_result_def io_log_def)

text \<open>
  C4, as amended. When the pull request ends in an \<open>'error'\<close> event (the socket is
  absent, refuses or resets), the run ends with that error and the pull is the only
  request made: no create request follows.
\<close>

theorem pull_connection_failure:
  assumes "fst (http_request E (PullImage img) w) = RequestError e"
  shows "io_result (runContainer E img cmd args env (w, [], ())) = Inl (SocketError e)
       \<and> map fst (io_log (runContainer E img cmd args env (w, [], ()))) = [PullImage img]"
proof -
  obtain w1 where "http_request E (PullImage img) w = (RequestError e, w1)"
    using assms by (cases "http_request E (PullImage img) w") auto
  then show ?thesis
    unfolding runContainer_unfold
    by (simp add: io_result_def io_log_def pullResponse_def)
qed

theorem pull_connection_failure_witness:
  "io_result (exampleRun pullRefused) = Inl (SocketError ''ECONNREFUSED'')
   \<and> map fst (io_log (exampleRun pullRefused)) = [PullImage ''alpine'']"
proof -
  have "fst (http_request (exampleEngine pullRefused) (PullImage ''alpine'') ()) = RequestError ''ECONNREFUSED''"
    by (simp add: exampleEngine_def pullRefused_def)
  from pull_connection_failure [OF this, of "''echo''" "''hi''" "[]"] show ?thesis
    by (simp add: exampleRun_def)
qed

text \<open>
  C4, as stated, fails for a pull the engine answers with an error status: the response
  is consumed, and the create request and the rest of the run follow.
\<close>

theorem pull_failure_counterexample:
  "fst (http_request (exampleEngine pullRejected) (PullImage ''alpine'') ())
     = Response 500 (bytes ''registry unreachable'')
   \<and> map fst (io_log (exampleRun pullRejected)) =
       [PullImage ''alpine'', CreateContainer ''alpine'' (Some [''echo'', ''hi'']) [] False,
        StartContainer (Str ''c1''), WaitContainer (Str ''c1''), GetLogs (Str ''c1''),
        RemoveContainer (Str ''c1'')]
   \<and> io_result (exampleRun pullRejected) = Inr ([104, 105], [], Num 0)"
proof -
  have "fst (http_request (exampleEngine pullRejected) (PullImage ''alpine'') ())
          = Response 500 (bytes ''registry unreachable'')"
    by (simp add: exampleEngine_def pullRejected_def)
  then show ?thesis
    by (simp add: exampleRun_pullRejected io_result_def io_log_def)
qed

section \<open>Cleanup of temporary directories: proofs\<close>

lemma acquired_simps [simp]:
  "acquired [] = []"
  "acquired (xs @ ys) = acquired xs @ acquired ys"
  "acquired (e # xs) = (case acquiredBy e of None \<Rightarrow> acquired xs | Some d \<Rightarrow> d # acquired xs)"
  by (simp_all add: acquired_def List.map_filter_def split: option.splits)

lemma cleanups_simps [simp]:
  "cleanups [] = []"
  "cleanups (xs @ ys) = cleanups xs @ cleanups ys"
  "cleanups (e # xs) = (case cleanedUp e of None \<Rightarrow> cleanups xs | Some d \<Rightarrow> d # cleanups xs)"
  by (simp_all add: cleanups_def List.map_filter_def split: option.splits)

lemma io_bind_call:
  "io_bind (io_call ev act) f (w, tr, l) =
     (case act w of (Inl e, w') \<Rightarrow> (Inl e, w', tr @ [ev (Inl e)], l)
                  | (Inr a, w') \<Rightarrow> f a (w', tr @ [ev (Inr a)], l))"
  by (simp add: io_call_def io_bind_def io_ask_def io_lift_def split: prod.splits sum.splits)

lemma io_call_run:
  "io_call ev act (w, tr, l) = (fst (act w), snd (act w), tr @ [ev (fst (act w))], l)"
  by (simp add: io_call_def io_bind_def io_ask_def io_lift_def split: prod.splits sum.splits)

lemma io_bind_assign: "io_bind (io_assign g) f (w, tr, l) = f () (w, tr, g l)"
  by (simp add: io_bind_def io_assign_def)

lemma tracksI:
  assumes "\<And>w tr l. \<exists>new. io_log (m (w, tr, l)) = tr @ new
                   \<and> io_final_locals (m (w, tr, l)) = l @ acquired new
                   \<and> (\<forall>e \<in> set new. cleanedUp e = None)"
  shows "tracks m"
  using assms unfolding tracks_def by blast

lemma tracks_return: "tracks (io_return x)"
  by (rule tracksI) (simp add: io_return_def io_log_def io_final_locals_def)

lemma tracks_throw: "tracks (io_throw e)"
  by (rule tracksI) (simp add: io_throw_def io_log_def io_final_locals_def)

lemma tracks_call:
  assumes "\<And>r. acquiredBy (ev r) = None" "\<And>r. cleanedUp (ev r) = None"
  shows "tracks (io_call ev act)"
  by (rule tracksI) (simp add: io_call_run io_log_def io_final_locals_def assms)

lemma tracks_bind:
  assumes m: "tracks m" and f: "\<And>a. tracks (f a)"
  shows "tracks (io_bind m f)"
proof (rule tracksI)
  fix w tr l
  obtain r w1 tr1 l1 where run: "m (w, tr, l) = (r, w1, tr1, l1)"
    by (cases "m (w, tr, l)") auto
  from m obtain new1 where n1: "tr1 = tr @ new1" "l1 = l @ acquired new1" "\<forall>e \<in> set new1. cleanedUp e = None"
    unfolding tracks_def using run
    by (metis fst_conv snd_conv io_log_def io_final_locals_def)
  show "\<exists>new. io_log (io_bind m f (w, tr, l)) = tr @ new
              \<and> io_final_locals (io_bind m f (w, tr, l)) = l @ acquired new
              \<and> (\<forall>e \<in> set new. cleanedUp e = None)"
  proof (cases r)
    case (Inl e)
    then have "io_bind m f (w, tr, l) = (Inl e, w1, tr1, l1)"
      by (simp add: io_bind_def run)
    then show ?thesis
      using n1 by (simp add: io_log_def io_final_locals_def)
  next
    case (Inr a)
    then have eq: "io_bind m f (w, tr, l) = f a (w1, tr1, l1)"
      by (simp add: io_bind_def run)
    from f [of a] obtain new2 where n2: "io_log (f a (w1, tr1, l1)) = tr1 @ new2"
        "io_final_locals (f a (w1, tr1, l1)) = l1 @ acquired new2" "\<forall>e \<in> set new2. cleanedUp e = None"
      unfolding tracks_def by blast
    have "io_log (io_bind m f (w, tr, l)) = tr @ (new1 @ new2)"
      "io_final_locals (io_bind m f (w, tr, l)) = l @ acquired (new1 @ new2)"
      "\<forall>e \<in> set (new1 @ new2). cleanedUp e = None"
      using n1 n2 by (auto simp add: eq)
    then show ?thesis by blast
  qed
qed

lemma tracks_catch:
  assumes m: "tracks m" and h: "\<And>e. tracks (h e)"
  shows "tracks (io_catch m h)"
proof (rule tracksI)
  fix w tr l
  obtain r w1 tr1 l1 where run: "m (w, tr, l) = (r, w1, tr1, l1)"
    by (cases "m (w, tr, l)") auto
  from m obtain new1 where n1: "tr1 = tr @ new1" "l1 = l @ acquired new1" "\<forall>e \<in> set new1. cleanedUp e = None"
    unfolding tracks_def using run
    by (metis fst_conv snd_conv io_log_def io_final_locals_def)
  show "\<exists>new. io_log (io_catch m h (w, tr, l)) = tr @ new
              \<and> io_final_locals (io_catch m h (w, tr, l)) = l @ acquired new
              \<and> (\<forall>e \<in> set new. cleanedUp e = None)"
  proof (cases r)
    case (Inr a)
    then have "io_catch m h (w, tr, l) = (Inr a, w1, tr1, l1)"
      by (simp add: io_catch_def run)
    then show ?thesis
      using n1 by (simp add: io_log_def io_final_locals_def)
  next
    case (Inl e)
    then have eq: "io_catch m h (w, tr, l) = h e (w1, tr1, l1)"
      by (simp add: io_catch_def run)
    from h [of e] obtain new2 where n2: "io_log (h e (w1, tr1, l1)) = tr1 @ new2"
        "io_final_locals (h e (w1, tr1, l1)) = l1 @ acquired new2" "\<forall>e \<in> set new2. cleanedUp e = None"
      unfolding tracks_def by blast
    have "io_log (io_catch m h (w, tr, l)) = tr @ (new1 @ new2)"
      "io_final_locals (io_catch m h (w, tr, l)) = l @ acquired (new1 @ new2)"
      "\<forall>e \<in> set (new1 @ new2). cleanedUp e = None"
      using n1 n2 by (auto simp add: eq)
    then show ?thesis by blast
  qed
qed

text \<open>An acquisition followed at once by its entry into \<open>tempDirectories\<close>.\<close>

lemma tracks_acquire:
  assumes ev: "\<And>a. acquiredBy (ev (Inr a)) = Some (dir a)" "\<And>e. acquiredBy (ev (Inl e)) = None"
      "\<And>r. cleanedUp (ev r) = None"
    and f: "\<And>a. tracks (f a)"
  shows "tracks (io_bind (io_call ev act) (\<lambda>a. io_bind (io_assign (\<lambda>tempDirectories. tempDirectories @ [dir a])) (\<lambda>_. f a)))"
proof (rule tracksI)
  fix w tr l
  let ?m = "io_bind (io_call ev act) (\<lambda>a. io_bind (io_assign (\<lambda>tempDirectories. tempDirectories @ [dir a])) (\<lambda>_. f a))"
  obtain r w1 where act: "act w = (r, w1)" by (cases "act w") auto
  show "\<exists>new. io_log (?m (w, tr, l)) = tr @ new \<and> io_final_locals (?m (w, tr, l)) = l @ acquired new
              \<and> (\<forall>e \<in> set new. cleanedUp e = None)"
  proof (cases r)
    case (Inl e)
    then have "?m (w, tr, l) = (Inl e, w1, tr @ [ev (Inl e)], l)"
      by (simp add: io_bind_call act)
    then show ?thesis
      by (intro exI [of _ "[ev (Inl e)]"]) (simp add: io_log_def io_final_locals_def ev)
  next
    case (Inr a)
    then have eq: "?m (w, tr, l) = f a (w1, tr @ [ev (Inr a)], l @ [dir a])"
      by (simp add: io_bind_call io_bind_assign act)
    from f [of a] obtain new2 where n2: "io_log (f a (w1, tr @ [ev (Inr a)], l @ [dir a])) = (tr @ [ev (Inr a)]) @ new2"
        "io_final_locals (f a (w1, tr @ [ev (Inr a)], l @ [dir a])) = (l @ [dir a]) @ acquired new2"
        "\<forall>e \<in> set new2. cleanedUp e = None"
      unfolding tracks_def by blast
    show ?thesis
      by (intro exI [of _ "ev (Inr a) # new2"]) (simp add: eq n2 ev)
  qed
qed

lemma tracks_createOutputDirectory:
  "tracks (io_bind (io_call (CreateOutputDirectory dir) (createOutputDirectory H dir)) (\<lambda>_. io_return x))"
  by (intro tracks_bind tracks_call tracks_return) simp_all

lemma tracks_prepareBinary: "tracks (prepareBinary H itemIndex bi bo mappings cfg)"
proof (cases bi)
  case True
  show ?thesis
  proof (cases "mappings = []")
    case True
    with \<open>bi\<close> show ?thesis
      by (simp add: prepareBinary_def tracks_return)
  next
    case False
    with \<open>bi\<close> show ?thesis
      by (simp add: prepareBinary_def Let_def)
         (rule tracks_acquire; auto intro!: tracks_bind tracks_return tracks_createOutputDirectory)
  qed
next
  case False
  show ?thesis
  proof (cases bo)
    case True
    with \<open>\<not> bi\<close> show ?thesis
      by (simp add: prepareBinary_def)
         (rule tracks_acquire; auto intro!: tracks_createOutputDirectory)
  next
    case False
    with \<open>\<not> bi\<close> show ?thesis
      by (simp add: prepareBinary_def tracks_return)
  qed
qed

lemma tracks_collectOutput: "tracks (collectOutput H bo dir pat d)"
  unfolding collectOutput_def
  by (auto intro!: tracks_bind tracks_call tracks_return split: option.splits)

lemma tracks_validateImage: "tracks (validateImage H itemIndex img)"
  unfolding validateImage_def Let_def
  by (auto intro!: tracks_throw tracks_return)

lemma tracks_executeContainerWithBinary_try: "tracks (executeContainerWithBinary_try H itemIndex params)"
  unfolding executeContainerWithBinary_try_def
  by (intro tracks_bind tracks_call tracks_validateImage tracks_prepareBinary tracks_collectOutput) simp_all

lemma tracks_execute_try: "tracks (execute_try H itemIndex params)"
  unfolding execute_try_def
  by (intro tracks_bind tracks_call tracks_validateImage tracks_prepareBinary tracks_collectOutput) simp_all

lemma tracks_execute_catch: "tracks (execute_catch H itemIndex params returnData err)"
  unfolding execute_catch_def Let_def
  by (auto intro!: tracks_throw tracks_return)

lemma tracks_executeItems: "tracks (executeItems H itemIndex items returnData)"
proof (induction items arbitrary: itemIndex returnData)
  case Nil
  show ?case by (simp add: tracks_return)
next
  case (Cons params rest)
  show ?case
    by simp
       (intro tracks_bind tracks_catch tracks_execute_try tracks_return tracks_execute_catch Cons.IH)
qed

lemma allSettled_cleanup:
  "\<exists>rs w' cs. allSettled (map (\<lambda>dir. io_call (CleanupTempDirectory dir) (cleanupTempDirectory H dir)) dirs)
                  (w, tr, l) = (Inr rs, w', tr @ cs, l)
               \<and> cleanups cs = dirs \<and> acquired cs = [] \<and> (\<forall>e \<in> set cs. cleanedUp e \<noteq> None)"
proof (induction dirs arbitrary: w tr)
  case Nil
  show ?case by (simp add: io_return_def)
next
  case (Cons dir dirs)
  let ?ms = "map (\<lambda>dir. io_call (CleanupTempDirectory dir) (cleanupTempDirectory H dir)) dirs"
  obtain r w1 where act: "cleanupTempDirectory H dir w = (r, w1)"
    by (cases "cleanupTempDirectory H dir w") auto
  from Cons.IH [of w1 "tr @ [CleanupTempDirectory dir r]"]
  obtain rs w' cs where rest: "allSettled ?ms (w1, tr @ [CleanupTempDirectory dir r], l)
        = (Inr rs, w', (tr @ [CleanupTempDirectory dir r]) @ cs, l)"
      "cleanups cs = dirs" "acquired cs = []" "\<forall>e \<in> set cs. cleanedUp e \<noteq> None"
    by blast
  have "allSettled (map (\<lambda>dir. io_call (CleanupTempDirectory dir) (cleanupTempDirectory H dir)) (dir # dirs))
          (w, tr, l) = (Inr (r # rs), w', tr @ (CleanupTempDirectory dir r # cs), l)"
    using rest(1) by (simp add: io_bind_def io_settle_def io_call_run act io_return_def)
  then show ?case
    using rest(2-4) by (intro exI [of _ "r # rs"] exI [of _ w'] exI [of _ "CleanupTempDirectory dir r # cs"]) simp
qed

lemma cleanupAll_run:
  "\<exists>rs w' cs. cleanupAll H (w, tr, l) = (Inr rs, w', tr @ cs, l)
               \<and> cleanups cs = l \<and> acquired cs = [] \<and> (\<forall>e \<in> set cs. cleanedUp e \<noteq> None)"
  using allSettled_cleanup [of H l w tr l]
  by (simp add: cleanupAll_def io_bind_def io_locals_def)

lemma cleanups_none: "\<forall>e \<in> set evs. cleanedUp e = None \<Longrightarrow> cleanups evs = []"
  by (induction evs) auto

lemma log_shape:
  assumes "\<forall>e \<in> set new. cleanedUp e = None" "\<forall>e \<in> set cs. cleanedUp e \<noteq> None"
  shows "takeWhile (\<lambda>e. cleanedUp e = None) (new @ cs) = new"
    and "filter (\<lambda>e. cleanedUp e \<noteq> None) (new @ cs) = cs"
proof -
  have "takeWhile (\<lambda>e. cleanedUp e = None) cs = []"
    using assms(2) by (cases cs) auto
  then show "takeWhile (\<lambda>e. cleanedUp e = None) (new @ cs) = new"
    using assms(1) by (simp add: takeWhile_append2)
  show "filter (\<lambda>e. cleanedUp e \<noteq> None) (new @ cs) = cs"
    using assms by (simp add: filter_empty_conv filter_id_conv)
qed

text \<open>The cleanup helper has no part in what is run before the \<open>finally\<close> block.\<close>

lemma blocks_without_cleanup:
  "validateImage (H \<lparr> cleanupTempDirectory := c \<rparr>) = validateImage H"
  "prepareBinary (H \<lparr> cleanupTempDirectory := c \<rparr>) = prepareBinary H"
  "collectOutput (H \<lparr> cleanupTempDirectory := c \<rparr>) = collectOutput H"
  "errorMessage (H \<lparr> cleanupTempDirectory := c \<rparr>) = errorMessage H"
  by (intro ext, simp add: validateImage_def prepareBinary_def collectOutput_def errorMessage_def Let_def
        cong: if_cong option.case_cong)+

lemma try_without_cleanup:
  "executeContainerWithBinary_try (H \<lparr> cleanupTempDirectory := c \<rparr>) = executeContainerWithBinary_try H"
  "execute_try (H \<lparr> cleanupTempDirectory := c \<rparr>) = execute_try H"
  "execute_catch (H \<lparr> cleanupTempDirectory := c \<rparr>) = execute_catch H"
  by (intro ext, simp add: executeContainerWithBinary_try_def execute_try_def execute_catch_def
        blocks_without_cleanup)+

lemma executeItems_without_cleanup:
  "executeItems (H \<lparr> cleanupTempDirectory := c \<rparr>) itemIndex items = executeItems H itemIndex items"
proof (induction items arbitrary: itemIndex)
  case Nil
  show ?case by (rule ext) simp
next
  case (Cons params rest)
  show ?case by (rule ext) (simp add: try_without_cleanup Cons.IH)
qed

lemma settledI:
  assumes "\<forall>e \<in> set new. cleanedUp e = None" "\<forall>e \<in> set cs. cleanedUp e \<noteq> None"
    "cleanups cs = acquired new" "acquired cs = []"
  shows "settled (new @ cs)"
  unfolding settled_def log_shape [OF assms(1,2)]
  using assms by (simp add: cleanups_none)

text \<open>A tracked computation under the \<open>finally\<close> block, from empty \<open>tempDirectories\<close>.\<close>

lemma finally_cleanupAll:
  assumes "tracks m"
  shows "settled (io_log (io_finally m (cleanupAll H) (w, [], [])))
       \<and> io_result (io_finally m (cleanupAll H) (w, [], [])) = io_result (m (w, [], []))"
proof -
  obtain r w1 tr1 l1 where run: "m (w, [], []) = (r, w1, tr1, l1)"
    by (cases "m (w, [], [])") auto
  from assms have "\<exists>new. io_log (m (w, [], [])) = [] @ new
                   \<and> io_final_locals (m (w, [], [])) = [] @ acquired new
                   \<and> (\<forall>e \<in> set new. cleanedUp e = None)"
    unfolding tracks_def by blast
  then have inv: "l1 = acquired tr1" "\<forall>e \<in> set tr1. cleanedUp e = None"
    by (auto simp add: run io_log_def io_final_locals_def)
  from cleanupAll_run [of H w1 tr1 l1]
  obtain rs w' cs where c: "cleanupAll H (w1, tr1, l1) = (Inr rs, w', tr1 @ cs, l1)"
      "cleanups cs = l1" "acquired cs = []" "\<forall>e \<in> set cs. cleanedUp e \<noteq> None"
    by blast
  have eq: "io_finally m (cleanupAll H) (w, [], []) = (r, w', tr1 @ cs, l1)"
    by (simp add: io_finally_def run c(1))
  have "settled (tr1 @ cs)"
    using inv c by (intro settledI) simp_all
  then show ?thesis
    by (simp add: eq run io_log_def io_result_def)
qed

text \<open>
  C5. Whatever the helpers do (success, validation failure, staging failure, engine
  failure), the log of \<open>execute\<close> and of \<open>executeContainerWithBinary\<close> is settled: every
  temporary directory the run acquired has its cleanup attempt after everything else,
  each directory whatever the outcome of the cleanups before it; and the outcome of the
  run is the same whatever the cleanup helper does.
\<close>

theorem cleanup_on_every_path:
  "settled (io_log (execute H items (w, [], l)))
   \<and> (\<forall>c. io_result (execute (H \<lparr> cleanupTempDirectory := c \<rparr>) items (w, [], l))
          = io_result (execute H items (w, [], l)))
   \<and> settled (io_log (executeContainerWithBinary H itemIndex params (w, [], l)))
   \<and> (\<forall>c. io_result (executeContainerWithBinary (H \<lparr> cleanupTempDirectory := c \<rparr>) itemIndex params (w, [], l))
          = io_result (executeContainerWithBinary H itemIndex params (w, [], l)))"
proof -
  have run: "\<And>H. execute H items (w, [], l) = io_finally (executeItems H 0 items []) (cleanupAll H) (w, [], [])"
    by (simp add: execute_def io_bind_assign)
  let ?body = "\<lambda>H. io_catch (executeContainerWithBinary_try H itemIndex params)
          (\<lambda>err. io_throw (NodeOperationError (errorMessage H (imageP params) err) itemIndex))"
  have run': "\<And>H. executeContainerWithBinary H itemIndex params (w, [], l)
                = io_finally (?body H) (cleanupAll H) (w, [], [])"
    by (simp add: executeContainerWithBinary_def io_bind_assign)
  have t: "\<And>H. tracks (?body H)"
    by (intro tracks_catch tracks_executeContainerWithBinary_try tracks_throw)
  have "settled (io_log (execute H items (w, [], l)))"
    using finally_cleanupAll [OF tracks_executeItems, of H 0 items "[]" H w]
    unfolding run by simp
  moreover have "io_result (execute (H \<lparr> cleanupTempDirectory := c \<rparr>) items (w, [], l))
          = io_result (execute H items (w, [], l))" for c
    using finally_cleanupAll [OF tracks_executeItems, of H 0 items "[]" H w]
      finally_cleanupAll [OF tracks_executeItems, of "H \<lparr> cleanupTempDirectory := c \<rparr>" 0 items "[]"
        "H \<lparr> cleanupTempDirectory := c \<rparr>" w]
    unfolding run by (simp add: executeItems_without_cleanup)
  moreover have "settled (io_log (executeContainerWithBinary H itemIndex params (w, [], l)))"
    using finally_cleanupAll [OF t, of H H w]
    unfolding run' by simp
  moreover have "io_result (executeContainerWithBinary (H \<lparr> cleanupTempDirectory := c \<rparr>) itemIndex params (w, [], l))
          = io_result (executeContainerWithBinary H itemIndex params (w, [], l))" for c
    using finally_cleanupAll [OF t, of H H w]
      finally_cleanupAll [OF t, of "H \<lparr> cleanupTempDirectory := c \<rparr>" "H \<lparr> cleanupTempDirectory := c \<rparr>" w]
    unfolding run' by (simp add: try_without_cleanup blocks_without_cleanup)
  ultimately show ?thesis by blast
qed

section \<open>Runs without staging: proofs\<close>

lemma executedConfigs_simps [simp]:
  "executedConfigs [] = []"
  "executedConfigs (xs @ ys) = executedConfigs xs @ executedConfigs ys"
  "executedConfigs (e # xs) = (case executedConfig e of None \<Rightarrow> executedConfigs xs | Some d \<Rightarrow> d # executedConfigs xs)"
  by (simp_all add: executedConfigs_def List.map_filter_def split: option.splits)

lemmas exec_simps = io_bind_call io_bind_assign io_bind_return io_bind_throw io_bind_assoc

lemma prepareBinary_empty:
  "prepareBinary H itemIndex True bo [] cfg = io_return (cfg, None)"
  by (simp add: prepareBinary_def)

lemma collectOutput_None: "collectOutput H bo None pat d = io_return d"
  by (simp add: collectOutput_def)

lemma cleanupAll_Nil: "cleanupAll H (w, tr, []) = (Inr [], w, tr, [])"
  by (simp add: cleanupAll_def io_bind_def io_locals_def io_return_def)

text \<open>
  C10. With binary input enabled and an empty mapping list, in both functions: no
  temporary directory is created, filled, harvested or cleaned up, \<open>tempDirectories\<close>
  gets no entry, the configuration given to the engine has no volumes, no memory limit
  and no CPU quota, and the result has no binary output, whether binary output is
  enabled or not.
\<close>

theorem empty_mappings_no_staging:
  assumes "binaryDataInput params" "binaryFileMappings params = []"
  shows "unstaged (executeContainerWithBinary H itemIndex params (w, [], l))
       \<and> io_final_locals (executeContainerWithBinary H itemIndex params (w, [], l)) = []
       \<and> unstaged (execute_try H itemIndex params (w, [], l))
       \<and> io_final_locals (execute_try H itemIndex params (w, [], l)) = l"
proof -
  have a: "unstaged (executeContainerWithBinary H itemIndex params (w, [], l))
       \<and> io_final_locals (executeContainerWithBinary H itemIndex params (w, [], l)) = []"
    using assms
    by (auto simp add: unstaged_def executeContainerWithBinary_def executeContainerWithBinary_try_def
          validateImage_def prepareBinary_empty collectOutput_None cleanupAll_Nil Let_def
          exec_simps io_finally_def io_catch_def io_throw_def io_return_def prepareResult_def baseConfig_def
          io_log_def io_result_def io_final_locals_def
        split: sum.splits prod.splits)
  have b: "unstaged (execute_try H itemIndex params (w, [], l))
       \<and> io_final_locals (execute_try H itemIndex params (w, [], l)) = l"
    using assms
    by (auto simp add: unstaged_def execute_try_def
          validateImage_def prepareBinary_empty collectOutput_None Let_def
          exec_simps io_throw_def io_return_def prepareResult_def baseConfig_def
          io_log_def io_result_def io_final_locals_def
        split: sum.splits prod.splits)
  from a b show ?thesis by blast
qed

section \<open>Validation and mounts: proofs\<close>

lemma yieldsI:
  assumes "\<And>w tr l. \<exists>new. io_log (m (w, tr, l)) = tr @ new \<and> Q new (io_result (m (w, tr, l)))"
  shows "yields m Q"
  using assms unfolding yields_def by blast

lemma yieldsE:
  assumes "yields m Q"
  obtains r w' new l' where "m (w, tr, l) = (r, w', tr @ new, l')" "Q new r"
proof -
  from assms obtain new where n: "io_log (m (w, tr, l)) = tr @ new" "Q new (io_result (m (w, tr, l)))"
    unfolding yields_def by blast
  obtain r w' tr' l' where run: "m (w, tr, l) = (r, w', tr', l')"
    by (cases "m (w, tr, l)") auto
  with n have "m (w, tr, l) = (r, w', tr @ new, l')" "Q new r"
    by (simp_all add: io_log_def io_result_def)
  then show thesis by (rule that)
qed

lemma yields_weaken:
  assumes "yields m P" "\<And>new r. P new r \<Longrightarrow> Q new r"
  shows "yields m Q"
  using assms unfolding yields_def by blast

lemma yields_return: "Q [] (Inr x) \<Longrightarrow> yields (io_return x) Q"
  by (rule yieldsI) (simp add: io_return_def io_log_def io_result_def)

lemma yields_throw: "Q [] (Inl e) \<Longrightarrow> yields (io_throw e) Q"
  by (rule yieldsI) (simp add: io_throw_def io_log_def io_result_def)

lemma yields_call: "(\<And>r. Q [ev r] r) \<Longrightarrow> yields (io_call ev act) Q"
  by (rule yieldsI) (simp add: io_call_run io_log_def io_result_def)

lemma yields_bind:
  assumes m: "yields m P" and f: "\<And>a. yields (f a) (R a)"
    and err: "\<And>n e. P n (Inl e) \<Longrightarrow> Q n (Inl e)"
    and ok: "\<And>n1 a n2 r. P n1 (Inr a) \<Longrightarrow> R a n2 r \<Longrightarrow> Q (n1 @ n2) r"
  shows "yields (io_bind m f) Q"
proof (rule yieldsI)
  fix w tr l
  from m obtain r w1 n1 l1 where run: "m (w, tr, l) = (r, w1, tr @ n1, l1)" and p: "P n1 r"
    by (rule yieldsE)
  show "\<exists>new. io_log (io_bind m f (w, tr, l)) = tr @ new \<and> Q new (io_result (io_bind m f (w, tr, l)))"
  proof (cases r)
    case (Inl e)
    then have "io_bind m f (w, tr, l) = (Inl e, w1, tr @ n1, l1)"
      by (simp add: io_bind_def run)
    with err [of n1 e] p Inl show ?thesis
      by (intro exI [of _ n1]) (simp add: io_log_def io_result_def)
  next
    case (Inr a)
    from f [of a] obtain r2 w2 n2 l2 where run2: "f a (w1, tr @ n1, l1) = (r2, w2, (tr @ n1) @ n2, l2)"
        and q: "R a n2 r2"
      by (rule yieldsE)
    have "io_bind m f (w, tr, l) = (r2, w2, tr @ (n1 @ n2), l2)"
      using Inr by (simp add: io_bind_def run run2)
    with ok [of n1 a n2 r2] p q Inr show ?thesis
      by (intro exI [of _ "n1 @ n2"]) (simp add: io_log_def io_result_def)
  qed
qed

lemma yields_catch:
  assumes m: "yields m P" and h: "\<And>e. yields (h e) (R e)"
    and ok: "\<And>n a. P n (Inr a) \<Longrightarrow> Q n (Inr a)"
    and err: "\<And>n1 e n2 r. P n1 (Inl e) \<Longrightarrow> R e n2 r \<Longrightarrow> Q (n1 @ n2) r"
  shows "yields (io_catch m h) Q"
proof (rule yieldsI)
  fix w tr l
  from m obtain r w1 n1 l1 where run: "m (w, tr, l) = (r, w1, tr @ n1, l1)" and p: "P n1 r"
    by (rule yieldsE)
  show "\<exists>new. io_log (io_catch m h (w, tr, l)) = tr @ new \<and> Q new (io_result (io_catch m h (w, tr, l)))"
  proof (cases r)
    case (Inr a)
    then have "io_catch m h (w, tr, l) = (Inr a, w1, tr @ n1, l1)"
      by (simp add: io_catch_def run)
    with ok [of n1 a] p Inr show ?thesis
      by (intro exI [of _ n1]) (simp add: io_log_def io_result_def)
  next
    case (Inl e)
    from h [of e] obtain r2 w2 n2 l2 where run2: "h e (w1, tr @ n1, l1) = (r2, w2, (tr @ n1) @ n2, l2)"
        and q: "R e n2 r2"
      by (rule yieldsE)
    have "io_catch m h (w, tr, l) = (r2, w2, tr @ (n1 @ n2), l2)"
      using Inl by (simp add: io_catch_def run run2)
    with err [of n1 e n2 r2] p q Inl show ?thesis
      by (intro exI [of _ "n1 @ n2"]) (simp add: io_log_def io_result_def)
  qed
qed

lemma yields_prepareBinary:
  "yields (prepareBinary H itemIndex bi bo mappings cfg)
     (\<lambda>new r. stagingOnly new
             \<and> (\<forall>staged. r = Inr staged \<longrightarrow> imageRef (fst staged) = imageRef cfg \<and> mountsOf bo new (fst staged)))"
  by (rule yieldsI)
     (simp add: prepareBinary_def Let_def exec_simps io_return_def io_log_def io_result_def
        stagingOnly_def mountsOf_def inputMounts_def outputMount_def
      split: sum.splits prod.splits)

lemma yields_collectOutput:
  "yields (collectOutput H bo dir pat d) (\<lambda>new r. \<forall>e \<in> set new. harvests e)"
  by (rule yieldsI)
     (simp add: collectOutput_def exec_simps io_return_def io_log_def io_result_def
      split: sum.splits prod.splits option.splits)

lemma stagingOnly_executedConfigs: "stagingOnly evs \<Longrightarrow> executedConfigs evs = []"
proof (induction evs)
  case Nil
  show ?case by simp
next
  case (Cons e evs)
  then show ?case by (cases e) (simp_all add: stagingOnly_def)
qed

lemma harvests_executedConfigs: "\<forall>e \<in> set evs. harvests e \<Longrightarrow> executedConfigs evs = []"
proof (induction evs)
  case Nil
  show ?case by simp
next
  case (Cons e evs)
  then show ?case by (cases e) simp_all
qed

lemma harvests_silent: "harvests e \<Longrightarrow> mountsFor bo e = None"
  by (cases e) simp_all

lemma cleanup_silent: "cleanedUp e \<noteq> None \<Longrightarrow> mountsFor bo e = None"
  by (cases e) simp_all

lemma mountsOf_append: "mountsOf bo (xs @ ys) cfg \<longleftrightarrow> mountsOf bo xs cfg \<and> mountsOf bo ys cfg"
  by (auto simp add: mountsOf_def)

lemma mountsOf_silent: "\<forall>e \<in> set xs. mountsFor bo e = None \<Longrightarrow> mountsOf bo xs cfg"
  by (simp add: mountsOf_def)

text \<open>Staging, the engine call and the harvest, as both functions chain them.\<close>

lemma yields_staged_run:
  "yields (io_bind (prepareBinary H itemIndex bi bo mappings cfg) (\<lambda>staged.
           io_bind (io_call (ExecuteContainer (fst staged)) (executeContainer H (fst staged))) (\<lambda>result.
           collectOutput H bo' (snd staged) pat (mk staged result))))
     (\<lambda>new r. mounted bo new \<and> (\<forall>c \<in> set (executedConfigs new). imageRef c = imageRef cfg))"
proof (rule yields_bind [OF yields_prepareBinary])
  fix staged :: "ContainerExecutionConfig \<times> string option"
  show "yields (io_bind (io_call (ExecuteContainer (fst staged)) (executeContainer H (fst staged))) (\<lambda>result.
           collectOutput H bo' (snd staged) pat (mk staged result)))
          (\<lambda>new r. \<exists>x rest. new = ExecuteContainer (fst staged) x # rest \<and> (\<forall>e \<in> set rest. harvests e))"
    by (rule yields_bind [OF yields_call [where Q = "\<lambda>new r. new = [ExecuteContainer (fst staged) r]"]
          yields_collectOutput]) simp_all
next
  fix n :: "event list" and e :: error
  assume "stagingOnly n \<and> (\<forall>staged. Inl e = Inr staged \<longrightarrow> imageRef (fst staged) = imageRef cfg \<and> mountsOf bo n (fst staged))"
  then show "mounted bo n \<and> (\<forall>c \<in> set (executedConfigs n). imageRef c = imageRef cfg)"
    by (simp add: mounted_def stagingOnly_executedConfigs)
next
  fix n1 n2 :: "event list" and staged :: "ContainerExecutionConfig \<times> string option"
    and r :: "error + ExecutionData"
  assume p: "stagingOnly n1 \<and> (\<forall>staged'. Inr staged = Inr staged' \<longrightarrow>
                imageRef (fst staged') = imageRef cfg \<and> mountsOf bo n1 (fst staged'))"
    and q: "\<exists>x rest. n2 = ExecuteContainer (fst staged) x # rest \<and> (\<forall>e \<in> set rest. harvests e)"
  from q obtain x rest where n2: "n2 = ExecuteContainer (fst staged) x # rest" and h: "\<forall>e \<in> set rest. harvests e"
    by blast
  have cfgs: "executedConfigs (n1 @ n2) = [fst staged]"
    using p h by (simp add: n2 stagingOnly_executedConfigs harvests_executedConfigs)
  have m: "mountsOf bo n1 (fst staged)" and img: "imageRef (fst staged) = imageRef cfg"
    using p by simp_all
  have "mounted bo (n1 @ n2)"
    unfolding mounted_def cfgs using m h
    by (simp add: mountsOf_append n2 mountsOf_def [of bo "_ # _"] harvests_silent)
  moreover have "\<forall>c \<in> set (executedConfigs (n1 @ n2)). imageRef c = imageRef cfg"
    unfolding cfgs by (simp add: img)
  ultimately show "mounted bo (n1 @ n2) \<and> (\<forall>c \<in> set (executedConfigs (n1 @ n2)). imageRef c = imageRef cfg)"
    by blast
qed

lemma yields_validateImage:
  "yields (validateImage H itemIndex img) (\<lambda>new r. new = [] \<and> (\<forall>u. r = Inr u \<longrightarrow> fst (validateDockerImageName H img)))"
  by (rule yieldsI) (simp add: validateImage_def Let_def io_throw_def io_return_def io_log_def io_result_def)

lemma yields_executeContainerWithBinary_try:
  "yields (executeContainerWithBinary_try H itemIndex params) (\<lambda>new r. itemOK H params new)"
  unfolding executeContainerWithBinary_try_def
proof (rule yields_bind [OF yields_call [where Q = "\<lambda>new r. \<exists>x. new = [DetectDockerSocket (socketPathP params) x]"]])
  fix socketPath' :: string
  let ?cfg = "baseConfig (imageP params) (entrypointP params) (commandP params) (envVars params) socketPath'"
  show "yields (io_bind (validateImage H itemIndex (imageP params)) (\<lambda>_.
           io_bind (prepareBinary H itemIndex (binaryDataInput params) (binaryDataOutput params)
                      (binaryFileMappings params) ?cfg) (\<lambda>staged.
           io_bind (io_call (ExecuteContainer (fst staged)) (executeContainer H (fst staged))) (\<lambda>result.
           collectOutput H (binaryDataOutput params) (snd staged) (outputFilePattern params)
             (prepareResult params (fst staged) (length (envVars params)) socketPath' itemIndex result)))))
         (\<lambda>new r. itemOK H params new)"
    by (rule yields_bind [OF yields_validateImage yields_staged_run])
       (simp_all add: itemOK_def mounted_def mountsOf_def baseConfig_def)
qed (auto simp add: itemOK_def mounted_def mountsOf_def)

lemma yields_execute_try:
  "yields (execute_try H itemIndex params) (\<lambda>new r. itemOK H params new)"
  unfolding execute_try_def
proof (rule yields_bind [OF yields_call [where Q = "\<lambda>new r. \<exists>x. new = [DetectDockerSocket (socketPathP params) x]"]])
  fix socketPath' :: string
  show "yields (io_bind (validateImage H itemIndex (imageP params)) (\<lambda>_.
           io_bind (io_call (ProcessEnvironmentVariables itemIndex) (processEnvironmentVariables H itemIndex))
             (\<lambda>envResult.
           io_bind (prepareBinary H itemIndex (binaryDataInput params) (binaryDataOutput params)
                      (binaryFileMappings params)
                      (baseConfig (imageP params) (entrypointP params) (commandP params) (fst envResult) socketPath'))
             (\<lambda>staged.
           io_bind (io_call (ExecuteContainer (fst staged)) (executeContainer H (fst staged))) (\<lambda>result.
           collectOutput H (binaryDataOutput params) (snd staged) (outputFilePattern params)
             (prepareResult params (fst staged) (snd envResult) socketPath' itemIndex result))))))
         (\<lambda>new r. itemOK H params new)"
  proof (rule yields_bind [OF yields_validateImage])
    fix u :: unit
    show "yields (io_bind (io_call (ProcessEnvironmentVariables itemIndex) (processEnvironmentVariables H itemIndex))
             (\<lambda>envResult.
           io_bind (prepareBinary H itemIndex (binaryDataInput params) (binaryDataOutput params)
                      (binaryFileMappings params)
                      (baseConfig (imageP params) (entrypointP params) (commandP params) (fst envResult) socketPath'))
             (\<lambda>staged.
           io_bind (io_call (ExecuteContainer (fst staged)) (executeContainer H (fst staged))) (\<lambda>result.
           collectOutput H (binaryDataOutput params) (snd staged) (outputFilePattern params)
             (prepareResult params (fst staged) (snd envResult) socketPath' itemIndex result)))))
          (\<lambda>new r. mounted (binaryDataOutput params) new
                   \<and> (\<forall>c \<in> set (executedConfigs new). imageRef c = imageP params))"
      by (rule yields_bind [OF yields_call [where Q = "\<lambda>new r. \<exists>x. new = [ProcessEnvironmentVariables itemIndex x]"]
            yields_staged_run])
         (auto simp add: mounted_def mountsOf_def baseConfig_def)
  qed (simp_all add: itemOK_def mounted_def mountsOf_def)
qed (auto simp add: itemOK_def mounted_def mountsOf_def)

lemma itemOK_validated: "itemOK H params evs \<Longrightarrow> validated H evs"
  by (simp add: itemOK_def validated_def)

lemma validated_append: "validated H xs \<Longrightarrow> validated H ys \<Longrightarrow> validated H (xs @ ys)"
  by (auto simp add: validated_def)

lemma validated_Nil: "validated H []"
  by (simp add: validated_def)

lemma yields_executeItems:
  "yields (executeItems H itemIndex items returnData) (\<lambda>new r. validated H new)"
proof (induction items arbitrary: itemIndex returnData)
  case Nil
  show ?case by (simp add: yields_return validated_Nil)
next
  case (Cons params rest)
  have one: "yields (io_catch
          (io_bind (execute_try H itemIndex params) (\<lambda>executionData.
             io_return (returnData @ [Executed executionData])))
          (execute_catch H itemIndex params returnData)) (\<lambda>new r. validated H new)"
  proof (rule yields_catch [where P = "\<lambda>new r. validated H new" and R = "\<lambda>e new r. new = []"])
    show "yields (io_bind (execute_try H itemIndex params) (\<lambda>executionData.
             io_return (returnData @ [Executed executionData]))) (\<lambda>new r. validated H new)"
      by (rule yields_bind [OF yields_execute_try, where R = "\<lambda>a new r. new = []"])
         (simp_all add: yields_return itemOK_validated)
    show "yields (execute_catch H itemIndex params returnData e) (\<lambda>new r. new = [])" for e
      by (simp add: execute_catch_def Let_def yields_return yields_throw)
  qed simp_all
  show ?case
    by simp (rule yields_bind [OF one Cons.IH], simp_all add: validated_append)
qed

text \<open>The \<open>finally\<close> block only appends cleanup attempts.\<close>

lemma finally_cleanupAll_log:
  "\<exists>cs. io_log (io_finally m (cleanupAll H) s) = io_log (m s) @ cs
        \<and> (\<forall>e \<in> set cs. cleanedUp e \<noteq> None)
        \<and> io_result (io_finally m (cleanupAll H) s) = io_result (m s)"
proof -
  obtain r w1 tr1 l1 where run: "m s = (r, w1, tr1, l1)"
    by (cases "m s") auto
  from cleanupAll_run [of H w1 tr1 l1]
  obtain rs w' cs where c: "cleanupAll H (w1, tr1, l1) = (Inr rs, w', tr1 @ cs, l1)"
      "\<forall>e \<in> set cs. cleanedUp e \<noteq> None"
    by blast
  have "io_finally m (cleanupAll H) s = (r, w', tr1 @ cs, l1)"
    by (simp add: io_finally_def run c(1))
  then show ?thesis
    using c(2) by (intro exI [of _ cs]) (simp add: run io_log_def io_result_def)
qed

lemma cleanup_executedConfigs: "\<forall>e \<in> set cs. cleanedUp e \<noteq> None \<Longrightarrow> executedConfigs cs = []"
proof (induction cs)
  case Nil
  show ?case by simp
next
  case (Cons e cs)
  then show ?case by (cases e) simp_all
qed

lemma mounted_cleanup:
  assumes "mounted bo evs" "\<forall>e \<in> set cs. cleanedUp e \<noteq> None"
  shows "mounted bo (evs @ cs)"
  using assms
  by (simp add: mounted_def mountsOf_append mountsOf_silent cleanup_executedConfigs [OF assms(2)] cleanup_silent)

lemma validated_cleanup:
  assumes "validated H evs" "\<forall>e \<in> set cs. cleanedUp e \<noteq> None"
  shows "validated H (evs @ cs)"
  using assms(1) by (simp add: validated_def cleanup_executedConfigs [OF assms(2)])

lemma yields_from_empty:
  assumes "yields m Q"
  shows "Q (io_log (m (w, [], l))) (io_result (m (w, [], l)))"
  using assms unfolding yields_def by (metis append_Nil)

lemma itemOK_executeContainerWithBinary:
  "itemOK H params (io_log (executeContainerWithBinary H itemIndex params (w, [], l)))"
proof -
  let ?body = "io_catch (executeContainerWithBinary_try H itemIndex params)
          (\<lambda>err. io_throw (NodeOperationError (errorMessage H (imageP params) err) itemIndex))"
  have run: "executeContainerWithBinary H itemIndex params (w, [], l)
                = io_finally ?body (cleanupAll H) (w, [], [])"
    by (simp add: executeContainerWithBinary_def io_bind_assign)
  have "yields ?body (\<lambda>new r. itemOK H params new)"
    by (rule yields_catch [OF yields_executeContainerWithBinary_try, where R = "\<lambda>e new r. new = []"])
       (simp_all add: yields_throw)
  then have ok: "itemOK H params (io_log (?body (w, [], [])))"
    by (rule yields_from_empty)
  from finally_cleanupAll_log [of ?body H "(w, [], [])"]
  obtain cs where cs: "io_log (io_finally ?body (cleanupAll H) (w, [], [])) = io_log (?body (w, [], [])) @ cs"
      "\<forall>e \<in> set cs. cleanedUp e \<noteq> None"
    by blast
  show ?thesis
    unfolding run cs(1) using ok mounted_cleanup [OF _ cs(2)]
    by (simp add: itemOK_def cleanup_executedConfigs [OF cs(2)])
qed

lemma validated_execute: "validated H (io_log (execute H items (w, [], l)))"
proof -
  have run: "execute H items (w, [], l) = io_finally (executeItems H 0 items []) (cleanupAll H) (w, [], [])"
    by (simp add: execute_def io_bind_assign)
  have ok: "validated H (io_log (executeItems H 0 items [] (w, [], [])))"
    by (rule yields_from_empty [OF yields_executeItems])
  from finally_cleanupAll_log [of "executeItems H 0 items []" H "(w, [], [])"]
  obtain cs where cs: "io_log (io_finally (executeItems H 0 items []) (cleanupAll H) (w, [], []))
        = io_log (executeItems H 0 items [] (w, [], [])) @ cs"
      "\<forall>e \<in> set cs. cleanedUp e \<noteq> None"
    by blast
  show ?thesis
    unfolding run cs(1) by (rule validated_cleanup [OF ok cs(2)])
qed

text \<open>A rejected image: nothing but the socket probe has happened when the error is thrown.\<close>

lemma invalid_image_try:
  assumes "\<not> fst (validateDockerImageName H (imageP params))"
  shows "io_log (execute_try H itemIndex params (w, [], l))
           = [DetectDockerSocket (socketPathP params) (fst (detectDockerSocket H (socketPathP params) w))]"
    and "io_log (executeContainerWithBinary H itemIndex params (w, [], l))
           = [DetectDockerSocket (socketPathP params) (fst (detectDockerSocket H (socketPathP params) w))]"
    and "fst (detectDockerSocket H (socketPathP params) w) = Inr path \<Longrightarrow>
         io_result (execute_try H itemIndex params (w, [], l))
           = Inl (NodeOperationError (''Invalid Docker image: '' @ join '', '' (snd (validateDockerImageName H (imageP params)))) itemIndex)"
    and "fst (detectDockerSocket H (socketPathP params) w) = Inr path \<Longrightarrow>
         io_result (executeContainerWithBinary H itemIndex params (w, [], l))
           = Inl (NodeOperationError (errorMessage H (imageP params)
               (NodeOperationError (''Invalid Docker image: '' @ join '', '' (snd (validateDockerImageName H (imageP params)))) itemIndex))
               itemIndex)"
  using assms
  by (auto simp add: execute_try_def executeContainerWithBinary_def executeContainerWithBinary_try_def
        validateImage_def Let_def exec_simps io_throw_def io_catch_def io_finally_def cleanupAll_Nil
        io_log_def io_result_def
      split: sum.splits prod.splits)

text \<open>
  C7. No run of \<open>execute\<close> or \<open>executeContainerWithBinary\<close> gives the engine a
  configuration whose image the validator rejects. For an item with a rejected image
  only the socket probe has happened when the \<open>try\<close> block throws, and what it throws
  is the error whose message lists the violations, joined by commas; that is the error
  \<open>executeContainerWithBinary\<close> formats and raises.
\<close>

theorem validation_before_engine:
  "validated H (io_log (execute H items (w, [], l)))
   \<and> validated H (io_log (executeContainerWithBinary H itemIndex params (w, [], l)))
   \<and> (\<not> fst (validateDockerImageName H (imageP params)) \<longrightarrow>
        io_log (execute_try H itemIndex params (w, [], l))
          = [DetectDockerSocket (socketPathP params) (fst (detectDockerSocket H (socketPathP params) w))]
      \<and> io_log (executeContainerWithBinary H itemIndex params (w, [], l))
          = [DetectDockerSocket (socketPathP params) (fst (detectDockerSocket H (socketPathP params) w))]
      \<and> (\<forall>path. fst (detectDockerSocket H (socketPathP params) w) = Inr path \<longrightarrow>
            io_result (execute_try H itemIndex params (w, [], l))
              = Inl (NodeOperationError
                  (''Invalid Docker image: '' @ join '', '' (snd (validateDockerImageName H (imageP params))))
                  itemIndex)
          \<and> io_result (executeContainerWithBinary H itemIndex params (w, [], l))
              = Inl (NodeOperationError (errorMessage H (imageP params)
                  (NodeOperationError
                    (''Invalid Docker image: '' @ join '', '' (snd (validateDockerImageName H (imageP params))))
                    itemIndex))
                  itemIndex)))"
proof -
  have "validated H (io_log (executeContainerWithBinary H itemIndex params (w, [], l)))"
    by (rule itemOK_validated [OF itemOK_executeContainerWithBinary])
  moreover have "validated H (io_log (execute H items (w, [], l)))"
    by (rule validated_execute)
  ultimately show ?thesis
    using invalid_image_try [where H = H and params = params and itemIndex = itemIndex and w = w and l = l]
    by auto
qed

text \<open>
  C8. In every run of \<open>executeContainerWithBinary\<close> and of the \<open>try\<close> block of
  \<open>execute\<close>, the configuration given to the engine has, after a successful
  \<open>prepareBinaryInput\<close>, one bind \<open><hostPath>:<containerPath>:ro\<close> per staged input, in
  order, followed by \<open><tempDir>/output:/output:rw\<close> exactly when binary output is
  enabled, and nothing else; after \<open>mkdtemp\<close> it has that output bind alone.
\<close>

theorem staged_mounts:
  "mounted (binaryDataOutput params) (io_log (executeContainerWithBinary H itemIndex params (w, [], l)))
   \<and> mounted (binaryDataOutput params) (io_log (execute_try H itemIndex params (w, [], l)))"
proof -
  have "itemOK H params (io_log (executeContainerWithBinary H itemIndex params (w, [], l)))"
    by (rule itemOK_executeContainerWithBinary)
  moreover have "itemOK H params (io_log (execute_try H itemIndex params (w, [], l)))"
    by (rule yields_from_empty [OF yields_execute_try])
  ultimately show ?thesis
    by (simp add: itemOK_def)
qed

section \<open>Example runs\<close>

lemmas host_defs = executeContainerWithBinary_def executeContainerWithBinary_try_def execute_def
  execute_try_def execute_catch_def validateImage_def prepareBinary_def collectOutput_def
  prepareResult_def baseConfig_def orUndefined_def errorMessage_def cleanupAll_def
  io_bind_def io_call_def io_ask_def io_lift_def io_return_def io_throw_def io_catch_def
  io_finally_def io_settle_def io_locals_def io_assign_def Let_def

lemmas example_host_defs = host_defs exampleHost_def exampleParams_def

lemma example_run:
  "io_log (executeContainerWithBinary exampleHost 0 exampleParams ((), [], [])) = exampleLog"
  by (simp add: example_host_defs exampleLog_def io_log_def)

theorem staged_mounts_witness:
  "map volumes (executedConfigs (io_log (executeContainerWithBinary exampleHost 0 exampleParams ((), [], []))))
     = [Some [''/tmp/in/data:/input/a:ro'', ''/tmp/in/output:/output:rw'']]"
proof -
  have "mounted True exampleLog"
    using staged_mounts [where params = exampleParams and H = exampleHost and itemIndex = 0
        and w = "()" and l = "[]"]
    by (simp add: example_run) (simp add: exampleParams_def)
  then show ?thesis
    unfolding example_run
    by (simp add: exampleLog_def mounted_def mountsOf_def inputMounts_def outputMount_def)
qed

lemma example_batch_run:
  "io_log (execute exampleHost exampleBatch ((), [], [])) = exampleBatchLog"
  "io_result (execute exampleHost exampleBatch ((), [], [])) =
     Inr [Executed
            \<lparr> json_stdout = ''hello'', json_stderr = [], json_exitCode = 0, json_success = True,
              json_hasOutput = True, container_image = ''alpine'',
              container_command = Some ''cat /input/a'', container_entrypoint = None,
              environmentVariablesCount = 1, container_socketPath = ''/var/run/docker.sock'',
              binaryInput = True, binaryOutput = True, outputFilesCount = Some 1,
              binary = Some [(''result.txt'', ''data'')], pairedItem = 0 \<rparr>,
          FailedItem ''Docker container execution error: No such image. Image: missing'' 1,
          FailedItem ''Docker container execution error: Invalid Docker image: Image name cannot be empty, Image name is required. Image: '' 2]"
  by (simp_all add: example_host_defs exampleBatch_def exampleBatchLog_def io_log_def io_result_def)

theorem cleanup_on_every_path_witness:
  "settled exampleBatchLog
   \<and> acquired exampleBatchLog = [''/tmp/in'', ''/tmp/n8n-docker-output-x1'']
   \<and> cleanups exampleBatchLog = [''/tmp/in'', ''/tmp/n8n-docker-output-x1'']
   \<and> filter (\<lambda>e. cleanedUp e \<noteq> None) exampleBatchLog
       = [CleanupTempDirectory ''/tmp/in'' (Inl (Error ''EBUSY'')),
          CleanupTempDirectory ''/tmp/n8n-docker-output-x1'' (Inr ())]"
proof -
  have "settled exampleBatchLog"
    using cleanup_on_every_path [where H = exampleHost and items = exampleBatch and w = "()" and l = "[]"]
    by (simp add: example_batch_run)
  then show ?thesis
    by (simp add: exampleBatchLog_def)
qed

theorem validation_before_engine_witness:
  "io_result (execute_try exampleHost 2 (exampleParams \<lparr> imageP := [] \<rparr>) ((), [], []))
     = Inl (NodeOperationError ''Invalid Docker image: Image name cannot be empty, Image name is required'' 2)
   \<and> io_log (execute_try exampleHost 2 (exampleParams \<lparr> imageP := [] \<rparr>) ((), [], []))
     = [DetectDockerSocket ''/var/run/docker.sock'' (Inr ''/var/run/docker.sock'')]
   \<and> io_result (executeContainerWithBinary exampleHost 2 (exampleParams \<lparr> imageP := [] \<rparr>) ((), [], []))
     = Inl (NodeOperationError ''Docker container execution error: Invalid Docker image: Image name cannot be empty, Image name is required. Image: '' 2)
   \<and> map imageRef (executedConfigs exampleBatchLog) = [''alpine'', ''missing'']"
proof -
  have inv: "\<not> fst (validateDockerImageName exampleHost (imageP (exampleParams \<lparr> imageP := [] \<rparr>)))"
    by (simp add: exampleHost_def)
  have det: "fst (detectDockerSocket exampleHost (socketPathP (exampleParams \<lparr> imageP := [] \<rparr>)) ())
              = Inr ''/var/run/docker.sock''"
    by (simp add: exampleHost_def exampleParams_def)
  have "map imageRef (executedConfigs exampleBatchLog) = [''alpine'', ''missing'']"
    by (simp add: exampleBatchLog_def)
  then show ?thesis
    using validation_before_engine [where H = exampleHost and params = "exampleParams \<lparr> imageP := [] \<rparr>"
        and itemIndex = 2 and w = "()" and l = "[]" and items = exampleBatch] inv det
    by (simp add: exampleHost_def exampleParams_def errorMessage_def)
qed

theorem empty_mappings_no_staging_witness:
  "unstaged (executeContainerWithBinary exampleHost 0 (exampleParams \<lparr> binaryFileMappings := [] \<rparr>) ((), [], []))
   \<and> io_log (executeContainerWithBinary exampleHost 0 (exampleParams \<lparr> binaryFileMappings := [] \<rparr>) ((), [], []))
     = [DetectDockerSocket ''/var/run/docker.sock'' (Inr ''/var/run/docker.sock''),
        ExecuteContainer
          \<lparr> imageRef = ''alpine'', entrypoint = None, command = Some ''cat /input/a'',
            environmentVariables = [], socketPath = ''/var/run/docker.sock'', autoRemove = True,
            pullPolicy = Missing, volumes = None, memory = None, cpuQuota = None \<rparr>
          (Inr \<lparr> stdout = ''hello'', stderr = [], exitCode = 0, success = True, hasOutput = True \<rparr>)]"
proof -
  have "binaryDataInput (exampleParams \<lparr> binaryFileMappings := [] \<rparr>)"
    "binaryFileMappings (exampleParams \<lparr> binaryFileMappings := [] \<rparr>) = []"
    by (simp_all add: exampleParams_def)
  from empty_mappings_no_staging [OF this, where H = exampleHost and itemIndex = 0 and w = "()" and l = "[]"]
  have "unstaged (executeContainerWithBinary exampleHost 0 (exampleParams \<lparr> binaryFileMappings := [] \<rparr>) ((), [], []))"
    by simp
  moreover have "io_log (executeContainerWithBinary exampleHost 0 (exampleParams \<lparr> binaryFileMappings := [] \<rparr>) ((), [], []))
     = [DetectDockerSocket ''/var/run/docker.sock'' (Inr ''/var/run/docker.sock''),
        ExecuteContainer
          \<lparr> imageRef = ''alpine'', entrypoint = None, command = Some ''cat /input/a'',
            environmentVariables = [], socketPath = ''/var/run/docker.sock'', autoRemove = True,
            pullPolicy = Missing, volumes = None, memory = None, cpuQuota = None \<rparr>
          (Inr \<lparr> stdout = ''hello'', stderr = [], exitCode = 0, success = True, hasOutput = True \<rparr>)]"
    by (simp add: example_host_defs io_log_def)
  ultimately show ?thesis by blast
qed

section \<open>The resource limit estimator: proofs\<close>

text \<open>
  C9. For a policy whose floors do not exceed its ceilings and whose scalings are
  non-decreasing, the estimate is non-decreasing in the input size in both components,
  and for every size each component lies between its floor and its ceiling.
\<close>

theorem estimate_monotone_bounded:
  assumes "memoryFloor P \<le> memoryCeiling P" "cpuFloor P \<le> cpuCeiling P"
    and "mono (memoryScale P)" "mono (cpuScale P)"
  shows "(a \<le> b \<longrightarrow> fst (estimate P a) \<le> fst (estimate P b) \<and> snd (estimate P a) \<le> snd (estimate P b))
       \<and> memoryFloor P \<le> fst (estimate P n) \<and> fst (estimate P n) \<le> memoryCeiling P
       \<and> cpuFloor P \<le> snd (estimate P n) \<and> snd (estimate P n) \<le> cpuCeiling P"
proof -
  have "a \<le> b \<Longrightarrow> memoryScale P a \<le> memoryScale P b" "a \<le> b \<Longrightarrow> cpuScale P a \<le> cpuScale P b"
    using assms(3,4) by (auto dest: monoD)
  then show ?thesis
    using assms(1,2) by (auto simp add: estimate_def clamp_def)
qed

theorem estimate_monotone_bounded_witness:
  "estimate examplePolicy 0 = (536870912, 50000)
   \<and> estimate examplePolicy 268435456 = (1073741824, 200000)
   \<and> estimate examplePolicy 1099511627776 = (4294967296, 200000)
   \<and> fst (estimate examplePolicy 0) \<le> fst (estimate examplePolicy 268435456)"
proof -
  have "memoryFloor examplePolicy \<le> memoryCeiling examplePolicy"
    "cpuFloor examplePolicy \<le> cpuCeiling examplePolicy"
    "mono (memoryScale examplePolicy)" "mono (cpuScale examplePolicy)"
    by (simp_all add: examplePolicy_def mono_def div_le_mono)
  from estimate_monotone_bounded [OF this, of 0 268435456 0]
  have "fst (estimate examplePolicy 0) \<le> fst (estimate examplePolicy 268435456)"
    by simp
  then show ?thesis
    by (simp add: estimate_def clamp_def examplePolicy_def)
qed

end
